theory Spec2Isabelle
  imports Complex_Main "HOL-Library.Word"
begin

unbundle bit_operations_syntax

text \<open>
  A shallow embedding of the connectivity manager of the ESP32 LoRaWAN geofencing firmware
  (src/lorawan_manager.h, src/lorawan_manager.cpp, include/project_config.h): its duty-cycle
  gate, join state machine, session persistence, statistics and payload encoders, followed
  by the properties the specification states about them. The first part holds the
  definitions, each named after the source function it follows; the second part holds the
  lemmas and the theorems for the claims C1 to C10.
\<close>

section \<open>Machine types and configuration (include/project_config.h)\<close>

type_synonym u8 = "8 word"
type_synonym u32 = "32 word"

text \<open>\<open>int32_t\<close> and \<open>int16_t\<close> are words read in two's complement with \<open>sint\<close>.\<close>

type_synonym i32 = "32 word"
type_synonym i16 = "16 word"

definition LORAWAN_DEVEUI :: string where
  "LORAWAN_DEVEUI = ''58EC3C43CA480000''"

definition LORAWAN_APPEUI :: string where
  "LORAWAN_APPEUI = ''0000000000000000''"

definition LORAWAN_APPKEY :: string where
  "LORAWAN_APPKEY = ''CE8A96F54327D1CB20078F78D4746517''"

definition LORAWAN_PORT :: u8 where
  "LORAWAN_PORT = 1"

definition TX_INTERVAL_MS :: u32 where
  "TX_INTERVAL_MS = 60000"

definition JOIN_RETRY_DELAY :: u32 where
  "JOIN_RETRY_DELAY = 30000"

definition MAX_JOIN_ATTEMPTS :: u8 where
  "MAX_JOIN_ATTEMPTS = 10"

definition STORAGE_NAMESPACE :: string where
  "STORAGE_NAMESPACE = ''geofence''"

definition MSG_TYPE_GPS_DATA :: u8 where
  "MSG_TYPE_GPS_DATA = 0x01"

definition MSG_TYPE_GEOFENCE_EVENT :: u8 where
  "MSG_TYPE_GEOFENCE_EVENT = 0x02"

text \<open>The radio library's success code; every other \<open>int\<close> is a classified failure.\<close>

definition RADIOLIB_ERR_NONE :: int where
  "RADIOLIB_ERR_NONE = 0"

section \<open>The manager's fields and its surroundings\<close>

text \<open>
  The fields of \<open>class LoRaWANManager\<close> (src/lorawan_manager.h). The two driver pointers
  \<open>radio\<close> and \<open>node\<close> carry no data of the manager; what is asked of them appears as
  an event of the trace and what they answer is an argument of the operation.
\<close>

record LoRaWANManager =
  devEUI :: "u8 list"
  appEUI :: "u8 list"
  appKey :: "u8 list"
  isJoined :: bool
  isInitialized :: bool
  lastTxTime :: u32
  lastJoinAttempt :: u32
  joinAttempts :: u8
  txCounter :: u32
  totalTransmissions :: u32
  successfulTransmissions :: u32
  failedTransmissions :: u32
  totalJoinAttempts :: u32

text \<open>Values of the \<open>Preferences\<close> key-value store, addressed by namespace and key.\<close>

datatype pref = PBool bool | PUInt u32

type_synonym nvs_store = "string \<times> string \<rightharpoonup> pref"

text \<open>
  Everything the manager does to the outside, in order: the serial log, the requests
  forwarded to the radio capability, and the device restart.
\<close>

datatype event =
    Print string
  | Println string
  | PrintNum nat
  | PrintlnNum nat
  | PrintlnHex u32
  | PrintlnError int
  | SpiBegin
  | RadioBegin
  | RadioConfigure
  | BeginOTAA "u8 list" "u8 list" "u8 list"
  | NodeIsJoined
  | SendReceive "u8 list" nat u8
  | EspRestart

record env =
  nvs :: nvs_store
  trace :: "event list"

definition emit :: "event list \<Rightarrow> env \<Rightarrow> env" where
  "emit evs e = e\<lparr>trace := trace e @ evs\<rparr>"

text \<open>
  The constructor. It leaves the three credential buffers uninitialised; the model
  starts them as zero bytes of the declared sizes.
\<close>

definition LoRaWANManager_new :: LoRaWANManager where
  "LoRaWANManager_new = \<lparr>
     devEUI = replicate 8 0, appEUI = replicate 8 0, appKey = replicate 16 0,
     isJoined = False, isInitialized = False,
     lastTxTime = 0, lastJoinAttempt = 0, joinAttempts = 0, txCounter = 0,
     totalTransmissions = 0, successfulTransmissions = 0, failedTransmissions = 0,
     totalJoinAttempts = 0 \<rparr>"

section \<open>Session management\<close>

definition getBool :: "nvs_store \<Rightarrow> string \<Rightarrow> string \<Rightarrow> bool \<Rightarrow> bool" where
  "getBool st ns k d = (case st (ns, k) of Some (PBool b) \<Rightarrow> b | _ \<Rightarrow> d)"

definition getUInt :: "nvs_store \<Rightarrow> string \<Rightarrow> string \<Rightarrow> u32 \<Rightarrow> u32" where
  "getUInt st ns k d = (case st (ns, k) of Some (PUInt v) \<Rightarrow> v | _ \<Rightarrow> d)"

text \<open>
  \<open>saveSession\<close>: \<open>prefs_ok\<close> is the answer of \<open>prefs.begin(STORAGE_NAMESPACE, false)\<close>.
  When the store does not open nothing is written and nothing is logged.
\<close>

definition saveSession :: "LoRaWANManager \<Rightarrow> bool \<Rightarrow> env \<Rightarrow> env" where
  "saveSession m prefs_ok e =
     (if prefs_ok then
        emit [Println ''LoRaWAN Manager: Session saved!'']
          (e\<lparr>nvs := (nvs e)
              ((STORAGE_NAMESPACE, ''joined'') \<mapsto> PBool (isJoined m),
               (STORAGE_NAMESPACE, ''tx_counter'') \<mapsto> PUInt (txCounter m),
               (STORAGE_NAMESPACE, ''total_tx'') \<mapsto> PUInt (totalTransmissions m),
               (STORAGE_NAMESPACE, ''success_tx'') \<mapsto> PUInt (successfulTransmissions m),
               (STORAGE_NAMESPACE, ''failed_tx'') \<mapsto> PUInt (failedTransmissions m))\<rparr>)
      else e)"

text \<open>\<open>loadSession\<close>: \<open>prefs_ok\<close> is the answer of \<open>prefs.begin(STORAGE_NAMESPACE, true)\<close>.\<close>

definition loadSession :: "LoRaWANManager \<Rightarrow> bool \<Rightarrow> env \<Rightarrow> bool \<times> LoRaWANManager \<times> env" where
  "loadSession m prefs_ok e =
     (if prefs_ok then
        (let m' = m\<lparr>
               isJoined := getBool (nvs e) STORAGE_NAMESPACE ''joined'' False,
               txCounter := getUInt (nvs e) STORAGE_NAMESPACE ''tx_counter'' 0,
               totalTransmissions := getUInt (nvs e) STORAGE_NAMESPACE ''total_tx'' 0,
               successfulTransmissions := getUInt (nvs e) STORAGE_NAMESPACE ''success_tx'' 0,
               failedTransmissions := getUInt (nvs e) STORAGE_NAMESPACE ''failed_tx'' 0\<rparr>
         in if isJoined m'
            then (True, m', emit [Println ''LoRaWAN Manager: Previous session loaded!''] e)
            else (False, m', e))
      else (False, m, e))"

section \<open>Status and transmission\<close>

text \<open>\<open>canTransmit\<close>: \<open>now\<close> is the value of \<open>millis()\<close>; the subtraction is on \<open>uint32_t\<close>.\<close>

definition canTransmit :: "LoRaWANManager \<Rightarrow> u32 \<Rightarrow> bool" where
  "canTransmit m now =
     (if \<not> isInitialized m \<or> \<not> isJoined m then False
      else if now - lastTxTime m < TX_INTERVAL_MS then False
      else True)"

definition getNextTxTime :: "LoRaWANManager \<Rightarrow> u32 \<Rightarrow> u32" where
  "getNextTxTime m now =
     (if \<not> isJoined m then 0
      else if now - lastTxTime m \<ge> TX_INTERVAL_MS then 0
      else TX_INTERVAL_MS - (now - lastTxTime m))"

definition getStatistics :: "LoRaWANManager \<Rightarrow> u32 \<times> u32 \<times> u32" where
  "getStatistics m = (totalTransmissions m, successfulTransmissions m, failedTransmissions m)"

text \<open>
  \<open>sendCustomPayload(payload, length, port)\<close>. The outside answers are arguments:
  \<open>now\<close> is \<open>millis()\<close> as read by \<open>canTransmit\<close>, \<open>tx_state\<close> the result of
  \<open>node->sendReceive\<close>, \<open>now_tx\<close> the \<open>millis()\<close> read after a successful send and
  \<open>prefs_ok\<close> whether the store opens in \<open>saveSession\<close>.
\<close>

definition sendCustomPayload ::
  "LoRaWANManager \<Rightarrow> env \<Rightarrow> u8 list \<Rightarrow> nat \<Rightarrow> u8 \<Rightarrow> u32 \<Rightarrow> int \<Rightarrow> u32 \<Rightarrow> bool
     \<Rightarrow> bool \<times> LoRaWANManager \<times> env" where
  "sendCustomPayload m e payload len port now tx_state now_tx prefs_ok =
     (if \<not> canTransmit m now then
        (False, m, emit [Println ''LoRaWAN Manager: Cannot transmit at this time!''] e)
      else
        (let e1 = emit [Print ''LoRaWAN Manager: Sending payload ('', PrintNum len,
                        Print '' bytes) on port '', PrintlnNum (unat port),
                        SendReceive payload len port] e;
             m1 = m\<lparr>totalTransmissions := totalTransmissions m + 1\<rparr>
         in if tx_state = RADIOLIB_ERR_NONE then
              (let m2 = m1\<lparr>successfulTransmissions := successfulTransmissions m1 + 1,
                          lastTxTime := now_tx,
                          txCounter := txCounter m1 + 1\<rparr>
               in (True, m2,
                   saveSession m2 prefs_ok
                     (emit [Println ''LoRaWAN Manager: Transmission successful!''] e1)))
            else
              (False, m1\<lparr>failedTransmissions := failedTransmissions m1 + 1\<rparr>,
               emit [Print ''LoRaWAN Manager: Transmission failed: '', PrintlnError tx_state] e1)))"

text \<open>
  The typed wrappers. Each reads the clock once for its own gate (\<open>now0\<close>) before
  \<open>sendCustomPayload\<close> reads it again. The local \<open>buffer[32]\<close> is uninitialised in the
  source; the model starts it as zeros, and only its first \<open>length\<close> bytes are payload.
  \<open>encodeStatusUpdate\<close> is declared but has no definition among the sources, so
  \<open>sendStatusUpdate\<close> is left out.
\<close>

record GPSData =
  latitude :: i32
  longitude :: i32
  altitude :: i16
  satellites :: u8
  hdop :: u8

record GeofenceEvent =
  geofence_id :: u8
  event_type :: u8
  ev_latitude :: i32
  ev_longitude :: i32
  timestamp :: u32

text \<open>
  The encoders write through a raw pointer. A buffer too short for the writes is
  undefined behaviour in the source and \<open>None\<close> here. \<open>>>\<close> on a signed value is the
  arithmetic shift; \<open>int16_t\<close> is promoted to \<open>int\<close> first (\<open>scast\<close>); the assignment to
  \<open>uint8_t\<close> keeps the low byte (\<open>ucast\<close>).
\<close>

definition encodeGPSData :: "GPSData \<Rightarrow> u8 list \<Rightarrow> (nat \<times> u8 list) option" where
  "encodeGPSData gps buffer =
     (if length buffer < 13 then None
      else Some (13, buffer
        [0 := MSG_TYPE_GPS_DATA,
         1 := ucast (signed_drop_bit 24 (latitude gps) AND 0xFF),
         2 := ucast (signed_drop_bit 16 (latitude gps) AND 0xFF),
         3 := ucast (signed_drop_bit 8 (latitude gps) AND 0xFF),
         4 := ucast (latitude gps AND 0xFF),
         5 := ucast (signed_drop_bit 24 (longitude gps) AND 0xFF),
         6 := ucast (signed_drop_bit 16 (longitude gps) AND 0xFF),
         7 := ucast (signed_drop_bit 8 (longitude gps) AND 0xFF),
         8 := ucast (longitude gps AND 0xFF),
         9 := ucast (signed_drop_bit 8 (scast (altitude gps) :: i32) AND 0xFF),
         10 := ucast ((scast (altitude gps) :: i32) AND 0xFF),
         11 := satellites gps,
         12 := hdop gps]))"

definition encodeGeofenceEvent :: "GeofenceEvent \<Rightarrow> u8 list \<Rightarrow> (nat \<times> u8 list) option" where
  "encodeGeofenceEvent ev buffer =
     (if length buffer < 15 then None
      else Some (15, buffer
        [0 := MSG_TYPE_GEOFENCE_EVENT,
         1 := geofence_id ev,
         2 := event_type ev,
         3 := ucast (signed_drop_bit 24 (ev_latitude ev) AND 0xFF),
         4 := ucast (signed_drop_bit 16 (ev_latitude ev) AND 0xFF),
         5 := ucast (signed_drop_bit 8 (ev_latitude ev) AND 0xFF),
         6 := ucast (ev_latitude ev AND 0xFF),
         7 := ucast (signed_drop_bit 24 (ev_longitude ev) AND 0xFF),
         8 := ucast (signed_drop_bit 16 (ev_longitude ev) AND 0xFF),
         9 := ucast (signed_drop_bit 8 (ev_longitude ev) AND 0xFF),
         10 := ucast (ev_longitude ev AND 0xFF),
         11 := ucast (drop_bit 24 (timestamp ev) AND 0xFF),
         12 := ucast (drop_bit 16 (timestamp ev) AND 0xFF),
         13 := ucast (drop_bit 8 (timestamp ev) AND 0xFF),
         14 := ucast (timestamp ev AND 0xFF)]))"

definition sendGPSData ::
  "LoRaWANManager \<Rightarrow> env \<Rightarrow> GPSData \<Rightarrow> u32 \<Rightarrow> u32 \<Rightarrow> int \<Rightarrow> u32 \<Rightarrow> bool
     \<Rightarrow> bool \<times> LoRaWANManager \<times> env" where
  "sendGPSData m e gps now0 now tx_state now_tx prefs_ok =
     (if \<not> canTransmit m now0 then (False, m, e)
      else case encodeGPSData gps (replicate 32 0) of
             None \<Rightarrow> (False, m, e)
           | Some (len, buffer) \<Rightarrow>
               sendCustomPayload m e buffer len LORAWAN_PORT now tx_state now_tx prefs_ok)"

definition sendGeofenceEvent ::
  "LoRaWANManager \<Rightarrow> env \<Rightarrow> GeofenceEvent \<Rightarrow> u32 \<Rightarrow> u32 \<Rightarrow> int \<Rightarrow> u32 \<Rightarrow> bool
     \<Rightarrow> bool \<times> LoRaWANManager \<times> env" where
  "sendGeofenceEvent m e ev now0 now tx_state now_tx prefs_ok =
     (if \<not> canTransmit m now0 then (False, m, e)
      else case encodeGeofenceEvent ev (replicate 32 0) of
             None \<Rightarrow> (False, m, e)
           | Some (len, buffer) \<Rightarrow>
               sendCustomPayload m e buffer len LORAWAN_PORT now tx_state now_tx prefs_ok)"

section \<open>OTAA join\<close>

text \<open>
  \<open>startJoin\<close>: \<open>now\<close> is \<open>millis()\<close>, \<open>join_state\<close> the result of \<open>node->beginOTAA\<close>.
  The too-soon return is the only one that neither logs nor forwards. \<open>ESP.restart()\<close>
  reboots the device; the \<open>return false\<close> written after it is kept as the result.
\<close>

definition startJoin ::
  "LoRaWANManager \<Rightarrow> env \<Rightarrow> u32 \<Rightarrow> int \<Rightarrow> bool \<times> LoRaWANManager \<times> env" where
  "startJoin m e now join_state =
     (if \<not> isInitialized m then
        (False, m, emit [Println ''LoRaWAN Manager: Not initialized!''] e)
      else if isJoined m then
        (True, m, emit [Println ''LoRaWAN Manager: Already joined!''] e)
      else if now - lastJoinAttempt m < JOIN_RETRY_DELAY then
        (False, m, e)
      else if joinAttempts m \<ge> MAX_JOIN_ATTEMPTS then
        (False, m,
         emit [Println ''LoRaWAN Manager: Maximum join attempts reached, restarting...'',
               EspRestart] e)
      else
        (let e1 = emit [Println ''LoRaWAN Manager: Starting OTAA join...'',
                        BeginOTAA (devEUI m) (appEUI m) (appKey m)] e
         in if join_state = RADIOLIB_ERR_NONE then
              (True,
               m\<lparr>lastJoinAttempt := now,
                 joinAttempts := joinAttempts m + 1,
                 totalJoinAttempts := totalJoinAttempts m + 1\<rparr>,
               emit [Println ''LoRaWAN Manager: OTAA join initiated successfully!''] e1)
            else
              (False, m,
               emit [Print ''LoRaWAN Manager: OTAA join initiation failed: '',
                     PrintlnError join_state] e1)))"

text \<open>
  \<open>checkJoinStatus\<close>: \<open>node_joined\<close> is the answer of \<open>node->isJoined()\<close>, \<open>dev_addr\<close>
  that of \<open>node->getDevAddr()\<close>, \<open>prefs_ok\<close> whether the store opens in \<open>saveSession\<close>.
\<close>

definition checkJoinStatus ::
  "LoRaWANManager \<Rightarrow> env \<Rightarrow> bool \<Rightarrow> u32 \<Rightarrow> bool \<Rightarrow> bool \<times> LoRaWANManager \<times> env" where
  "checkJoinStatus m e node_joined dev_addr prefs_ok =
     (if \<not> isInitialized m \<or> isJoined m then (isJoined m, m, e)
      else if node_joined then
        (let m' = m\<lparr>isJoined := True, joinAttempts := 0\<rparr>
         in (True, m',
             saveSession m' prefs_ok
               (emit [NodeIsJoined, Println ''LoRaWAN Manager: OTAA join successful!'',
                      Print ''DevAddr: 0x'', PrintlnHex dev_addr] e)))
      else (False, m, emit [NodeIsJoined] e))"

section \<open>Credentials\<close>

text \<open>
  \<open>strlen\<close> counts up to the first NUL; \<open>char_at\<close> reads the string with its terminator.
  A read past the terminator, which the loop makes only when \<open>maxBytes * 2\<close> has wrapped,
  is outside the string in the source and reads NUL here. \<open>isxdigit\<close> is the C library's,
  in the C locale.
\<close>

definition c_strlen :: "string \<Rightarrow> nat" where
  "c_strlen s = length (takeWhile (\<lambda>c. c \<noteq> CHR 0x00) s)"

definition char_at :: "string \<Rightarrow> nat \<Rightarrow> char" where
  "char_at s k = (if k < c_strlen s then s ! k else CHR 0x00)"

definition isxdigit :: "char \<Rightarrow> bool" where
  "isxdigit c =
     (let n = (of_char c :: nat)
      in (48 \<le> n \<and> n \<le> 57) \<or> (65 \<le> n \<and> n \<le> 70) \<or> (97 \<le> n \<and> n \<le> 102))"

text \<open>The source's digit expression \<open>(c >= 'A') ? (c - 'A' + 10) : (c - '0')\<close>, in \<open>int\<close>.\<close>

definition hex_nibble :: "char \<Rightarrow> int" where
  "hex_nibble c = (if (of_char c :: int) \<ge> 65 then of_char c - 65 + 10 else of_char c - 48)"

text \<open>
  The loop of \<open>hexStringToBytes\<close> from index \<open>i\<close>. The byte is first assigned the high
  digit shifted left by four, then or-ed with the low digit, each time cut to eight bits.
\<close>

function hex_loop :: "string \<Rightarrow> nat \<Rightarrow> nat \<Rightarrow> u8 list \<Rightarrow> bool \<times> u8 list" where
  "hex_loop hexStr maxBytes i bytes =
     (if i < maxBytes then
        (if \<not> isxdigit (char_at hexStr (i * 2)) \<or> \<not> isxdigit (char_at hexStr (i * 2 + 1))
         then (False, bytes)
         else hex_loop hexStr maxBytes (i + 1)
                (bytes[i := (word_of_int (push_bit 4 (hex_nibble (char_at hexStr (i * 2)))) :: u8)
                            OR word_of_int (hex_nibble (char_at hexStr (i * 2 + 1)))]))
      else (True, bytes))"
  by pat_completeness auto
termination
  by (relation "measure (\<lambda>(hexStr, maxBytes, i, bytes). maxBytes - i)") auto

text \<open>
  \<open>hexStringToBytes(hexStr, bytes, maxBytes)\<close> returns its result and the buffer as it
  leaves it. \<open>size_t\<close> has 32 bits on the target, so \<open>maxBytes * 2\<close> wraps.
\<close>

definition hexStringToBytes :: "string \<Rightarrow> u8 list \<Rightarrow> nat \<Rightarrow> bool \<times> u8 list" where
  "hexStringToBytes hexStr bytes maxBytes =
     (if c_strlen hexStr \<noteq> (maxBytes * 2) mod 2 ^ 32 then (False, bytes)
      else hex_loop hexStr maxBytes 0 bytes)"

definition parseCredentials :: "LoRaWANManager \<Rightarrow> env \<Rightarrow> bool \<times> LoRaWANManager \<times> env" where
  "parseCredentials m e =
     (case hexStringToBytes LORAWAN_DEVEUI (devEUI m) 8 of
        (False, b1) \<Rightarrow>
          (False, m\<lparr>devEUI := b1\<rparr>, emit [Println ''LoRaWAN Manager: Invalid DevEUI format!''] e)
      | (True, b1) \<Rightarrow>
     (case hexStringToBytes LORAWAN_APPEUI (appEUI m) 8 of
        (False, b2) \<Rightarrow>
          (False, m\<lparr>devEUI := b1, appEUI := b2\<rparr>,
           emit [Println ''LoRaWAN Manager: Invalid AppEUI format!''] e)
      | (True, b2) \<Rightarrow>
     (case hexStringToBytes LORAWAN_APPKEY (appKey m) 16 of
        (False, b3) \<Rightarrow>
          (False, m\<lparr>devEUI := b1, appEUI := b2, appKey := b3\<rparr>,
           emit [Println ''LoRaWAN Manager: Invalid AppKey format!''] e)
      | (True, b3) \<Rightarrow>
          (True, m\<lparr>devEUI := b1, appEUI := b2, appKey := b3\<rparr>,
           emit [Println ''LoRaWAN Manager: OTAA credentials parsed successfully!'',
                 Print ''DevEUI: '', Println LORAWAN_DEVEUI,
                 Print ''AppEUI: '', Println LORAWAN_APPEUI] e))))"

section \<open>Initialization\<close>

text \<open>
  \<open>initializeRadio\<close>: \<open>radio_state\<close> is the result of \<open>radio->begin()\<close>. The two null
  checks after \<open>new\<close> cannot fire (a failed \<open>new\<close> does not return) and have no branch.
\<close>

definition initializeRadio :: "env \<Rightarrow> int \<Rightarrow> bool \<times> env" where
  "initializeRadio e radio_state =
     (let e1 = emit [SpiBegin, RadioBegin] e
      in if radio_state \<noteq> RADIOLIB_ERR_NONE then
           (False, emit [Print ''LoRaWAN Manager: Radio begin failed: '',
                         PrintlnError radio_state] e1)
         else
           (True, emit [RadioConfigure,
                        Println ''LoRaWAN Manager: Radio initialized successfully!''] e1))"

definition begin_mgr ::
  "LoRaWANManager \<Rightarrow> env \<Rightarrow> int \<Rightarrow> bool \<Rightarrow> bool \<times> LoRaWANManager \<times> env" where
  "begin_mgr m e radio_state prefs_ok =
     (case initializeRadio (emit [Println ''LoRaWAN Manager: Initializing...''] e) radio_state of
        (False, e1) \<Rightarrow>
          (False, m, emit [Println ''LoRaWAN Manager: Radio initialization failed!''] e1)
      | (True, e1) \<Rightarrow>
     (case parseCredentials m e1 of
        (False, m2, e2) \<Rightarrow>
          (False, m2, emit [Println ''LoRaWAN Manager: Invalid OTAA credentials!''] e2)
      | (True, m2, e2) \<Rightarrow>
     (case loadSession m2 prefs_ok e2 of
        (r, m3, e3) \<Rightarrow>
          (True, m3\<lparr>isInitialized := True\<rparr>,
           emit [Println ''LoRaWAN Manager: Initialization successful!''] e3))))"

section \<open>A manager's lifetime\<close>

text \<open>
  The state-changing public operations with the answers of the outside as arguments, one
  step of a lifetime, and a sequence of steps with the value each call returned.
\<close>

datatype op =
    Begin int bool
  | StartJoin u32 int
  | CheckJoinStatus bool u32 bool
  | SendGPSData GPSData u32 u32 int u32 bool
  | SendGeofenceEvent GeofenceEvent u32 u32 int u32 bool
  | SendCustomPayload "u8 list" nat u8 u32 int u32 bool

fun step :: "op \<Rightarrow> LoRaWANManager \<times> env \<Rightarrow> bool \<times> LoRaWANManager \<times> env" where
  "step (Begin radio_state prefs_ok) (m, e) = begin_mgr m e radio_state prefs_ok"
| "step (StartJoin now join_state) (m, e) = startJoin m e now join_state"
| "step (CheckJoinStatus node_joined dev_addr prefs_ok) (m, e) =
     checkJoinStatus m e node_joined dev_addr prefs_ok"
| "step (SendGPSData gps now0 now tx_state now_tx prefs_ok) (m, e) =
     sendGPSData m e gps now0 now tx_state now_tx prefs_ok"
| "step (SendGeofenceEvent ev now0 now tx_state now_tx prefs_ok) (m, e) =
     sendGeofenceEvent m e ev now0 now tx_state now_tx prefs_ok"
| "step (SendCustomPayload payload len port now tx_state now_tx prefs_ok) (m, e) =
     sendCustomPayload m e payload len port now tx_state now_tx prefs_ok"

fun run :: "op list \<Rightarrow> LoRaWANManager \<times> env \<Rightarrow> bool list \<times> LoRaWANManager \<times> env" where
  "run [] s = ([], s)"
| "run (c # cs) s =
     (case step c s of (r, s') \<Rightarrow> (case run cs s' of (rs, s'') \<Rightarrow> (r # rs, s'')))"

definition env0 :: env where
  "env0 = \<lparr>nvs = Map.empty, trace = []\<rparr>"

section \<open>Geofence engine\<close>

datatype crossing = EXIT | ENTER

record zone =
  zone_id :: nat
  zone_radius :: "real option"
  zone_inside :: bool

text \<open>
  Modelled from the spec: the geofence engine's classification of one distance against
  one zone. The repository's geofence manager is not among the sources (src/main.cpp only
  calls \<open>checkGeofences\<close>). The spec: a sample is inside if distance \<open>\<le>\<close> radius and
  outside if distance \<open>>\<close> radius.
\<close>

definition classify_inside :: "real \<Rightarrow> real \<Rightarrow> bool" where
  "classify_inside radius d = (d \<le> radius)"

text \<open>
  Modelled from the spec: the hysteresis of the missing geofence engine for one zone. A
  flip from outside to inside is committed only if distance \<open>\<le>\<close> radius - margin, a flip
  from inside to outside only if distance \<open>>\<close> radius + margin; otherwise the last
  committed state is retained. The result is the new state and the event committed.
\<close>

definition zone_evaluate :: "real \<Rightarrow> real \<Rightarrow> bool \<Rightarrow> real \<Rightarrow> bool \<times> crossing option" where
  "zone_evaluate radius margin inside d =
     (if \<not> inside \<and> classify_inside radius d then
        (if d \<le> radius - margin then (True, Some ENTER) else (inside, None))
      else if inside \<and> \<not> classify_inside radius d then
        (if d > radius + margin then (False, Some EXIT) else (inside, None))
      else (inside, None))"

text \<open>
  Modelled from the spec: one call of the missing engine's \<open>evaluate\<close> over its zones
  in ascending identifier order, \<open>distance\<close> giving the distance of the sample to each zone's
  center. Slots with no configured radius are skipped; the scan returns at the first zone
  whose state flips and leaves the remaining zones for the next call.
\<close>

fun evaluate :: "real \<Rightarrow> (nat \<Rightarrow> real) \<Rightarrow> zone list \<Rightarrow> zone list \<times> (nat \<times> crossing) option" where
  "evaluate margin distance [] = ([], None)"
| "evaluate margin distance (z # zs) =
     (case zone_radius z of
        None \<Rightarrow> (case evaluate margin distance zs of (zs', ev) \<Rightarrow> (z # zs', ev))
      | Some r \<Rightarrow>
          (case zone_evaluate r margin (zone_inside z) (distance (zone_id z)) of
             (inside', Some k) \<Rightarrow> (z\<lparr>zone_inside := inside'\<rparr> # zs, Some (zone_id z, k))
           | (inside', None) \<Rightarrow>
               (case evaluate margin distance zs of
                  (zs', ev) \<Rightarrow> (z\<lparr>zone_inside := inside'\<rparr> # zs', ev))))"

text \<open>Modelled from the spec: the events one zone commits over a sequence of distances.\<close>

fun zone_run :: "real \<Rightarrow> real \<Rightarrow> bool \<Rightarrow> real list \<Rightarrow> crossing option list" where
  "zone_run radius margin inside [] = []"
| "zone_run radius margin inside (d # ds) =
     (case zone_evaluate radius margin inside d of
        (inside', ev) \<Rightarrow> ev # zone_run radius margin inside' ds)"

section \<open>Observations on traces, stores and lifetimes\<close>

text \<open>Which events are requests to the radio capability, and which operation is \<open>begin\<close>.\<close>

fun is_BeginOTAA :: "event \<Rightarrow> bool" where
  "is_BeginOTAA (BeginOTAA d a k) = True"
| "is_BeginOTAA _ = False"

fun is_SendReceive :: "event \<Rightarrow> bool" where
  "is_SendReceive (SendReceive p l q) = True"
| "is_SendReceive _ = False"

fun is_Begin :: "op \<Rightarrow> bool" where
  "is_Begin (Begin radio_state prefs_ok) = True"
| "is_Begin _ = False"

text \<open>A sequence of \<open>startJoin\<close> calls, each with its clock value and the capability's answer.\<close>

definition join_calls :: "(u32 \<times> int) list \<Rightarrow> op list" where
  "join_calls cs = map (\<lambda>(now, join_state). StartJoin now join_state) cs"

text \<open>
  The five entries of the session record as the store holds them, and the record that
  \<open>saveSession\<close> writes for a manager.
\<close>

definition persisted ::
  "nvs_store \<Rightarrow> pref option \<times> pref option \<times> pref option \<times> pref option \<times> pref option" where
  "persisted st =
     (st (STORAGE_NAMESPACE, ''joined''), st (STORAGE_NAMESPACE, ''tx_counter''),
      st (STORAGE_NAMESPACE, ''total_tx''), st (STORAGE_NAMESPACE, ''success_tx''),
      st (STORAGE_NAMESPACE, ''failed_tx''))"

definition snapshot ::
  "LoRaWANManager \<Rightarrow> pref option \<times> pref option \<times> pref option \<times> pref option \<times> pref option" where
  "snapshot m =
     (Some (PBool (isJoined m)), Some (PUInt (txCounter m)),
      Some (PUInt (totalTransmissions m)), Some (PUInt (successfulTransmissions m)),
      Some (PUInt (failedTransmissions m)))"

text \<open>
  The counters' equation on \<open>uint32_t\<close>, that is modulo \<open>2^32\<close>: for the manager's fields,
  and for the record in the store as \<open>loadSession\<close> reads it (absent keys as 0).
\<close>

definition stats_consistent :: "LoRaWANManager \<Rightarrow> bool" where
  "stats_consistent m \<longleftrightarrow>
     totalTransmissions m = successfulTransmissions m + failedTransmissions m"

definition store_consistent :: "nvs_store \<Rightarrow> bool" where
  "store_consistent st \<longleftrightarrow>
     getUInt st STORAGE_NAMESPACE ''total_tx'' 0 =
       getUInt st STORAGE_NAMESPACE ''success_tx'' 0 + getUInt st STORAGE_NAMESPACE ''failed_tx'' 0"

text \<open>
  The wire format in the spec's words: the big-endian two's complement encoding of an
  integer in \<open>n\<close> bytes, most significant byte first.
\<close>

definition be_twos_complement :: "nat \<Rightarrow> int \<Rightarrow> u8 list" where
  "be_twos_complement n v = map (\<lambda>k. word_of_int (v div 2 ^ (8 * (n - 1 - k)))) [0..<n]"

section \<open>Example states\<close>

text \<open>
  A manager after a successful \<open>begin\<close> on an empty store, the same once joined, and the
  same with the attempt counter at its maximum.
\<close>

definition ready_mgr :: LoRaWANManager where
  "ready_mgr = LoRaWANManager_new\<lparr>isInitialized := True\<rparr>"

definition joined_mgr :: LoRaWANManager where
  "joined_mgr = LoRaWANManager_new\<lparr>isInitialized := True, isJoined := True\<rparr>"

definition maxed_mgr :: LoRaWANManager where
  "maxed_mgr = ready_mgr\<lparr>joinAttempts := 10\<rparr>"

text \<open>A lifetime that reaches the maximum: \<open>begin\<close>, then ten accepted requests 30 s apart.\<close>

definition ten_joins :: "op list" where
  "ten_joins = Begin 0 True # join_calls
     [(30000, 0), (60000, 0), (90000, 0), (120000, 0), (150000, 0),
      (180000, 0), (210000, 0), (240000, 0), (270000, 0), (300000, 0)]"

text \<open>The position report of the spec's codec example.\<close>

definition santiago_fix :: GPSData where
  "santiago_fix = \<lparr>latitude = - 33448900, longitude = - 70669300, altitude = 520,
                    satellites = 8, hdop = 12\<rparr>"

text \<open>
  Two stores a device can boot with. The first was last written after \<open>2^32 - 1\<close>
  successful transmissions. The second holds a record of which \<open>saveSession\<close>, cut off
  after its third write, renewed \<open>joined\<close>, \<open>tx_counter\<close> and \<open>total_tx\<close> only.
\<close>

definition worn_store :: env where
  "worn_store = \<lparr>nvs = [(STORAGE_NAMESPACE, ''joined'') \<mapsto> PBool True,
                          (STORAGE_NAMESPACE, ''tx_counter'') \<mapsto> PUInt 0xFFFFFFFF,
                          (STORAGE_NAMESPACE, ''total_tx'') \<mapsto> PUInt 0xFFFFFFFF,
                          (STORAGE_NAMESPACE, ''success_tx'') \<mapsto> PUInt 0xFFFFFFFF,
                          (STORAGE_NAMESPACE, ''failed_tx'') \<mapsto> PUInt 0],
                   trace = []\<rparr>"

definition torn_store :: env where
  "torn_store = \<lparr>nvs = [(STORAGE_NAMESPACE, ''joined'') \<mapsto> PBool True,
                          (STORAGE_NAMESPACE, ''tx_counter'') \<mapsto> PUInt 6,
                          (STORAGE_NAMESPACE, ''total_tx'') \<mapsto> PUInt 6,
                          (STORAGE_NAMESPACE, ''success_tx'') \<mapsto> PUInt 5,
                          (STORAGE_NAMESPACE, ''failed_tx'') \<mapsto> PUInt 0],
                   trace = []\<rparr>"

section \<open>Evaluation and trace lemmas\<close>

lemmas eval_defs = begin_mgr_def initializeRadio_def emit_def env0_def RADIOLIB_ERR_NONE_def
     parseCredentials_def hexStringToBytes_def c_strlen_def char_at_def isxdigit_def hex_nibble_def
     LORAWAN_DEVEUI_def LORAWAN_APPEUI_def LORAWAN_APPKEY_def LoRaWANManager_new_def loadSession_def Let_def
     getBool_def getUInt_def STORAGE_NAMESPACE_def startJoin_def JOIN_RETRY_DELAY_def MAX_JOIN_ATTEMPTS_def
     join_calls_def ten_joins_def ready_mgr_def joined_mgr_def sendCustomPayload_def canTransmit_def TX_INTERVAL_MS_def
     checkJoinStatus_def saveSession_def

lemma emit_emit: "emit a (emit b e) = emit (b @ a) e"
  by (simp add: emit_def)

lemma emit_Nil: "emit [] e = e"
  by (simp add: emit_def)

lemma max_attempts_not_le_1: "\<not> (10::u8) \<le> 1"
  by (simp add: word_le_nat_alt)

section \<open>Duty-cycle gate\<close>

lemma canTransmit_iff:
  "canTransmit m now \<longleftrightarrow> isInitialized m \<and> isJoined m \<and> TX_INTERVAL_MS \<le> now - lastTxTime m"
  by (auto simp: canTransmit_def)

lemma elapsed_word:
  fixes t :: u32
  assumes "d < 2 ^ 32"
  shows "unat ((t + of_nat d) - t) = d"
proof -
  have "(t + of_nat d) - t = (of_nat d :: u32)" by simp
  moreover have "unat (of_nat d :: u32) = d"
    using assms by (simp add: unat_of_nat)
  ultimately show ?thesis by simp
qed

lemma gate_after:
  fixes t :: u32
  assumes "d < 2 ^ 32"
  shows "TX_INTERVAL_MS \<le> (t + of_nat d) - t \<longleftrightarrow> 60000 \<le> d"
proof -
  have "TX_INTERVAL_MS \<le> (t + of_nat d) - t \<longleftrightarrow> unat TX_INTERVAL_MS \<le> unat ((t + of_nat d) - t)"
    by (simp add: word_le_nat_alt)
  also have "\<dots> \<longleftrightarrow> 60000 \<le> d"
    using elapsed_word [OF assms] by (simp add: TX_INTERVAL_MS_def)
  finally show ?thesis .
qed

lemma sendCustomPayload_True:
  assumes "sendCustomPayload m e payload len port now tx_state now_tx prefs_ok = (True, m', e')"
  shows "canTransmit m now" "tx_state = RADIOLIB_ERR_NONE"
    "m' = m\<lparr>totalTransmissions := totalTransmissions m + 1,
            successfulTransmissions := successfulTransmissions m + 1,
            lastTxTime := now_tx,
            txCounter := txCounter m + 1\<rparr>"
  using assms by (auto simp: sendCustomPayload_def Let_def split: if_splits)

text \<open>
  C1. For every manager and clock value, \<open>canTransmit\<close> is true exactly when the manager is
  initialized and joined and the unsigned 32-bit difference between the clock and
  \<open>lastTxTime\<close> is at least \<open>TX_INTERVAL_MS\<close>; so it is false for a manager that is not
  initialized or not joined. After a successful \<open>sendCustomPayload\<close> whose timestamp was
  \<open>now_tx\<close>, the gate is closed at \<open>now_tx\<close>, still closed at \<open>now_tx + interval - 1\<close>,
  open at \<open>now_tx + interval\<close>, and in general, \<open>d\<close> milliseconds later (\<open>d < 2^32\<close>), open
  exactly when \<open>d\<close> is at least the interval.
\<close>

theorem C1_canTransmit_duty_cycle:
  "(canTransmit m now \<longleftrightarrow>
      isInitialized m \<and> isJoined m \<and> unat TX_INTERVAL_MS \<le> unat (now - lastTxTime m))
   \<and> (\<not> isInitialized m \<or> \<not> isJoined m \<longrightarrow> \<not> canTransmit m now)
   \<and> (sendCustomPayload m e payload len port now tx_state now_tx prefs_ok = (True, m', e') \<longrightarrow>
        lastTxTime m' = now_tx
        \<and> \<not> canTransmit m' now_tx
        \<and> \<not> canTransmit m' (now_tx + (TX_INTERVAL_MS - 1))
        \<and> canTransmit m' (now_tx + TX_INTERVAL_MS)
        \<and> (\<forall>d < 2 ^ 32. canTransmit m' (now_tx + of_nat d) \<longleftrightarrow> unat TX_INTERVAL_MS \<le> d))"
proof (intro conjI impI)
  show "canTransmit m now \<longleftrightarrow>
      isInitialized m \<and> isJoined m \<and> unat TX_INTERVAL_MS \<le> unat (now - lastTxTime m)"
    by (simp add: canTransmit_iff word_le_nat_alt)
next
  assume "\<not> isInitialized m \<or> \<not> isJoined m"
  then show "\<not> canTransmit m now" by (auto simp: canTransmit_def)
next
  assume ok: "sendCustomPayload m e payload len port now tx_state now_tx prefs_ok = (True, m', e')"
  note s = sendCustomPayload_True [OF ok]
  from s(1) have ij: "isInitialized m" "isJoined m" by (simp_all add: canTransmit_iff)
  from s(3) ij have m': "isInitialized m'" "isJoined m'" "lastTxTime m' = now_tx" by simp_all
  show "lastTxTime m' = now_tx" by (rule m'(3))
  have gate: "canTransmit m' (now_tx + of_nat d) \<longleftrightarrow> 60000 \<le> d" if "d < 2 ^ 32" for d
    using gate_after [OF that, of now_tx] m' by (simp add: canTransmit_iff)
  show "\<not> canTransmit m' now_tx"
    using gate [of 0] by simp
  show "\<not> canTransmit m' (now_tx + (TX_INTERVAL_MS - 1))"
    using gate [of 59999] by (simp add: TX_INTERVAL_MS_def)
  show "canTransmit m' (now_tx + TX_INTERVAL_MS)"
    using gate [of 60000] by (simp add: TX_INTERVAL_MS_def)
  show "\<forall>d < 2 ^ 32. canTransmit m' (now_tx + of_nat d) \<longleftrightarrow> unat TX_INTERVAL_MS \<le> d"
    using gate by (simp add: TX_INTERVAL_MS_def)
qed

theorem C1_canTransmit_duty_cycle_witness:
  "fst (sendCustomPayload joined_mgr env0 [1, 2, 3] 3 1 60000 0 60005 True) = True
   \<and> \<not> canTransmit (fst (snd (sendCustomPayload joined_mgr env0 [1, 2, 3] 3 1 60000 0 60005 True))) 60005
   \<and> \<not> canTransmit (fst (snd (sendCustomPayload joined_mgr env0 [1, 2, 3] 3 1 60000 0 60005 True))) 120004
   \<and> canTransmit (fst (snd (sendCustomPayload joined_mgr env0 [1, 2, 3] 3 1 60000 0 60005 True))) 120005"
proof -
  obtain m' e' where
    h: "sendCustomPayload joined_mgr env0 [1, 2, 3] 3 1 60000 0 60005 True = (True, m', e')"
    by (simp add: sendCustomPayload_def canTransmit_def joined_mgr_def LoRaWANManager_new_def
        TX_INTERVAL_MS_def RADIOLIB_ERR_NONE_def Let_def)
  from C1_canTransmit_duty_cycle [of joined_mgr 60000 env0 "[1, 2, 3]" 3 1 0 60005 True m' e'] h
  show ?thesis by (simp add: TX_INTERVAL_MS_def)
qed

section \<open>Failed transmissions\<close>

text \<open>
  C5. When the gate is open and \<open>sendReceive\<close> reports a failure, \<open>sendCustomPayload\<close>
  returns false and the manager differs from before only in \<open>totalTransmissions\<close>
  (incremented before the send) and \<open>failedTransmissions\<close>, each one higher:
  \<open>lastTxTime\<close>, \<open>txCounter\<close>, \<open>successfulTransmissions\<close> and \<open>isJoined\<close> are unchanged,
  the gate answers every clock value as before, and nothing is written to the store.
\<close>

theorem C5_failed_send_frame:
  assumes "canTransmit m now" and "tx_state \<noteq> RADIOLIB_ERR_NONE"
    and "sendCustomPayload m e payload len port now tx_state now_tx prefs_ok = (r, m', e')"
  shows "r = False
    \<and> m' = m\<lparr>totalTransmissions := totalTransmissions m + 1,
              failedTransmissions := failedTransmissions m + 1\<rparr>
    \<and> lastTxTime m' = lastTxTime m \<and> txCounter m' = txCounter m
    \<and> successfulTransmissions m' = successfulTransmissions m \<and> isJoined m' = isJoined m
    \<and> failedTransmissions m' = failedTransmissions m + 1
    \<and> totalTransmissions m' = totalTransmissions m + 1
    \<and> (\<forall>t. canTransmit m' t = canTransmit m t)
    \<and> nvs e' = nvs e"
proof -
  from assms(1,2) have
    "sendCustomPayload m e payload len port now tx_state now_tx prefs_ok =
       (False, m\<lparr>totalTransmissions := totalTransmissions m + 1,
                 failedTransmissions := failedTransmissions m + 1\<rparr>,
        emit [Print ''LoRaWAN Manager: Transmission failed: '', PrintlnError tx_state]
          (emit [Print ''LoRaWAN Manager: Sending payload ('', PrintNum len,
                 Print '' bytes) on port '', PrintlnNum (unat port),
                 SendReceive payload len port] e))"
    by (simp add: sendCustomPayload_def Let_def)
  with assms(3) have r: "r = False"
    and m': "m' = m\<lparr>totalTransmissions := totalTransmissions m + 1,
                      failedTransmissions := failedTransmissions m + 1\<rparr>"
    and e': "e' = emit [Print ''LoRaWAN Manager: Transmission failed: '', PrintlnError tx_state]
          (emit [Print ''LoRaWAN Manager: Sending payload ('', PrintNum len,
                 Print '' bytes) on port '', PrintlnNum (unat port),
                 SendReceive payload len port] e)"
    by simp_all
  have "nvs e' = nvs e" by (simp add: e' emit_def)
  moreover have "\<forall>t. canTransmit m' t = canTransmit m t" by (simp add: m' canTransmit_def)
  ultimately show ?thesis using r m' by simp
qed

theorem C5_failed_send_frame_witness:
  "canTransmit joined_mgr 60000 \<and> (- 1) \<noteq> RADIOLIB_ERR_NONE
   \<and> sendCustomPayload joined_mgr env0 [1, 2, 3] 3 1 60000 (- 1) 60005 True =
       (False, joined_mgr\<lparr>totalTransmissions := 1, failedTransmissions := 1\<rparr>,
        emit [Print ''LoRaWAN Manager: Sending payload ('', PrintNum 3,
              Print '' bytes) on port '', PrintlnNum 1, SendReceive [1, 2, 3] 3 1,
              Print ''LoRaWAN Manager: Transmission failed: '', PrintlnError (- 1)] env0)
   \<and> \<not> canTransmit (fst (snd (sendCustomPayload joined_mgr env0 [1, 2, 3] 3 1 60000 (- 1) 60005 True))) 59999
   \<and> canTransmit (fst (snd (sendCustomPayload joined_mgr env0 [1, 2, 3] 3 1 60000 (- 1) 60005 True))) 60001"
proof -
  have h1: "canTransmit joined_mgr 60000"
    by (simp add: canTransmit_def joined_mgr_def LoRaWANManager_new_def TX_INTERVAL_MS_def)
  have h2: "(- 1) \<noteq> RADIOLIB_ERR_NONE" by (simp add: RADIOLIB_ERR_NONE_def)
  obtain r m' e' where
    h3: "sendCustomPayload joined_mgr env0 [1, 2, 3] 3 1 60000 (- 1) 60005 True = (r, m', e')"
    using prod_cases3 by blast
  have ev: "sendCustomPayload joined_mgr env0 [1, 2, 3] 3 1 60000 (- 1) 60005 True =
       (False, joined_mgr\<lparr>totalTransmissions := 1, failedTransmissions := 1\<rparr>,
        emit [Print ''LoRaWAN Manager: Sending payload ('', PrintNum 3,
              Print '' bytes) on port '', PrintlnNum 1, SendReceive [1, 2, 3] 3 1,
              Print ''LoRaWAN Manager: Transmission failed: '', PrintlnError (- 1)] env0)"
    using h1 by (simp add: sendCustomPayload_def Let_def emit_def RADIOLIB_ERR_NONE_def
        joined_mgr_def LoRaWANManager_new_def)
  from C5_failed_send_frame [OF h1 h2 h3] h3 h1 h2 ev show ?thesis
    by (simp add: canTransmit_def joined_mgr_def LoRaWANManager_new_def TX_INTERVAL_MS_def)
qed

section \<open>Maximum join attempts\<close>

lemma startJoin_at_max:
  assumes "MAX_JOIN_ATTEMPTS \<le> joinAttempts m"
  shows "\<exists>r evs. startJoin m e now join_state = (r, m, emit evs e)
           \<and> filter is_BeginOTAA evs = []
           \<and> (isInitialized m \<and> \<not> isJoined m \<longrightarrow>
                r = False \<and>
                evs = (if now - lastJoinAttempt m < JOIN_RETRY_DELAY then []
                       else [Println ''LoRaWAN Manager: Maximum join attempts reached, restarting...'',
                             EspRestart]))"
proof (cases "isInitialized m")
  case False
  then show ?thesis
    by (intro exI [of _ False] exI [of _ "[Println ''LoRaWAN Manager: Not initialized!'']"])
      (simp add: startJoin_def)
next
  case init: True
  show ?thesis
  proof (cases "isJoined m")
    case True
    with init show ?thesis
      by (intro exI [of _ True] exI [of _ "[Println ''LoRaWAN Manager: Already joined!'']"])
        (simp add: startJoin_def)
  next
    case nj: False
    show ?thesis
    proof (cases "now - lastJoinAttempt m < JOIN_RETRY_DELAY")
      case True
      with init nj show ?thesis
        by (intro exI [of _ False] exI [of _ "[]"]) (simp add: startJoin_def emit_Nil)
    next
      case False
      with init nj assms show ?thesis
        by (intro exI [of _ False]
            exI [of _ "[Println ''LoRaWAN Manager: Maximum join attempts reached, restarting...'',
                        EspRestart]"]) (simp add: startJoin_def)
    qed
  qed
qed

lemma run_joins_at_max:
  assumes "MAX_JOIN_ATTEMPTS \<le> joinAttempts m"
  shows "\<exists>rs evs. run (join_calls cs) (m, e) = (rs, m, emit evs e) \<and> filter is_BeginOTAA evs = []"
proof (induction cs arbitrary: e)
  case Nil
  show ?case by (intro exI [of _ "[]"]) (simp add: join_calls_def emit_Nil)
next
  case (Cons c cs)
  obtain now st where c: "c = (now, st)" by (cases c)
  from startJoin_at_max [OF assms, of e now st] obtain r evs where
    1: "startJoin m e now st = (r, m, emit evs e)" "filter is_BeginOTAA evs = []" by blast
  from Cons.IH [of "emit evs e"] obtain rs evs' where
    2: "run (join_calls cs) (m, emit evs e) = (rs, m, emit evs' (emit evs e))"
       "filter is_BeginOTAA evs' = []" by blast
  show ?case
    using 1 2 c
    by (intro exI [of _ "r # rs"] exI [of _ "evs @ evs'"]) (simp add: join_calls_def emit_emit)
qed

text \<open>
  C2 (as the code has it). Once \<open>joinAttempts\<close> has reached \<open>MAX_JOIN_ATTEMPTS\<close>, a
  \<open>startJoin\<close> call leaves the manager unchanged and forwards no activation request, and
  so does every sequence of such calls. On an initialized manager that is not joined the
  call returns false: silently, by the too-soon path, while less than \<open>JOIN_RETRY_DELAY\<close>
  milliseconds have passed since the last accepted attempt; otherwise it logs that the
  maximum is reached and itself calls \<open>ESP.restart()\<close>.
\<close>

theorem C2_startJoin_at_max_attempts:
  assumes "MAX_JOIN_ATTEMPTS \<le> joinAttempts m"
  shows "(\<exists>r evs. startJoin m e now join_state = (r, m, emit evs e)
           \<and> filter is_BeginOTAA evs = []
           \<and> (isInitialized m \<and> \<not> isJoined m \<longrightarrow>
                r = False \<and>
                evs = (if now - lastJoinAttempt m < JOIN_RETRY_DELAY then []
                       else [Println ''LoRaWAN Manager: Maximum join attempts reached, restarting...'',
                             EspRestart])))
       \<and> (\<exists>rs evs. run (join_calls cs) (m, e) = (rs, m, emit evs e)
             \<and> filter is_BeginOTAA evs = [])"
  using startJoin_at_max [OF assms] run_joins_at_max [OF assms] by blast

theorem C2_startJoin_at_max_attempts_witness:
  "MAX_JOIN_ATTEMPTS \<le> joinAttempts maxed_mgr
   \<and> isInitialized maxed_mgr \<and> \<not> isJoined maxed_mgr
   \<and> \<not> (30000 - lastJoinAttempt maxed_mgr < JOIN_RETRY_DELAY)
   \<and> startJoin maxed_mgr env0 30000 0 =
       (False, maxed_mgr,
        emit [Println ''LoRaWAN Manager: Maximum join attempts reached, restarting...'',
              EspRestart] env0)
   \<and> fst (snd (run (join_calls [(30000, 0), (30001, 0)]) (maxed_mgr, env0))) = maxed_mgr"
proof -
  have h: "MAX_JOIN_ATTEMPTS \<le> joinAttempts maxed_mgr"
    by (simp add: maxed_mgr_def ready_mgr_def LoRaWANManager_new_def MAX_JOIN_ATTEMPTS_def)
  have st: "isInitialized maxed_mgr" "\<not> isJoined maxed_mgr"
    "\<not> (30000 - lastJoinAttempt maxed_mgr < JOIN_RETRY_DELAY)"
    by (simp_all add: maxed_mgr_def ready_mgr_def LoRaWANManager_new_def JOIN_RETRY_DELAY_def)
  from C2_startJoin_at_max_attempts [OF h, of env0 30000 0 "[(30000, 0), (30001, 0)]"]
  obtain r evs rs evs' where
    1: "startJoin maxed_mgr env0 30000 0 = (r, maxed_mgr, emit evs env0)"
       "isInitialized maxed_mgr \<and> \<not> isJoined maxed_mgr \<longrightarrow>
          r = False \<and>
          evs = (if 30000 - lastJoinAttempt maxed_mgr < JOIN_RETRY_DELAY then []
                 else [Println ''LoRaWAN Manager: Maximum join attempts reached, restarting...'',
                       EspRestart])"
    and 2: "run (join_calls [(30000, 0), (30001, 0)]) (maxed_mgr, env0) = (rs, maxed_mgr, emit evs' env0)"
    by blast
  from 1 2 h st show ?thesis by simp
qed

text \<open>
  The claim as stated fails: a freshly begun manager whose ten activation requests at
  30 s intervals were all accepted has reached the maximum, and the next \<open>startJoin\<close>
  restarts the device instead of leaving that decision to the caller.
\<close>

theorem C2_counterexample:
  "joinAttempts (fst (snd (run ten_joins (LoRaWANManager_new, env0)))) = MAX_JOIN_ATTEMPTS
   \<and> EspRestart \<in> set (trace (snd (snd (run (ten_joins @ [StartJoin 330000 0]) (LoRaWANManager_new, env0)))))"
  by (simp add: eval_defs max_attempts_not_le_1)

section \<open>Join retry window\<close>

lemma startJoin_too_soon:
  assumes "isInitialized m" "\<not> isJoined m" "now - lastJoinAttempt m < JOIN_RETRY_DELAY"
  shows "startJoin m e now join_state = (False, m, e)"
  using assms by (simp add: startJoin_def)

lemma startJoin_accepted:
  assumes "\<not> isJoined m" "startJoin m e now join_state = (True, m1, e1)"
  shows "isInitialized m" "joinAttempts m < MAX_JOIN_ATTEMPTS" "join_state = RADIOLIB_ERR_NONE"
    "m1 = m\<lparr>lastJoinAttempt := now, joinAttempts := joinAttempts m + 1,
             totalJoinAttempts := totalJoinAttempts m + 1\<rparr>"
    "e1 = emit [Println ''LoRaWAN Manager: Starting OTAA join...'',
                BeginOTAA (devEUI m) (appEUI m) (appKey m),
                Println ''LoRaWAN Manager: OTAA join initiated successfully!''] e"
  using assms by (auto simp: startJoin_def Let_def emit_def split: if_splits)

lemma run_joins_too_soon:
  assumes "isInitialized m" "\<not> isJoined m"
    and "\<forall>(t, st) \<in> set cs. t - lastJoinAttempt m < JOIN_RETRY_DELAY"
  shows "run (join_calls cs) (m, e) = (replicate (length cs) False, m, e)"
  using assms(3)
proof (induction cs)
  case Nil
  show ?case by (simp add: join_calls_def)
next
  case (Cons c cs)
  obtain t st where c: "c = (t, st)" by (cases c)
  with Cons.prems have "t - lastJoinAttempt m < JOIN_RETRY_DELAY" by simp
  from startJoin_too_soon [OF assms(1,2) this]
  have 1: "startJoin m e t st = (False, m, e)" .
  from Cons have 2: "run (join_calls cs) (m, e) = (replicate (length cs) False, m, e)" by simp
  show ?case using 1 2 c by (simp add: join_calls_def)
qed

text \<open>
  C3 (as the code has it). On a manager that is not joined, when a \<open>startJoin\<close> call at
  time \<open>t0\<close> returns true, its activation request was forwarded to the capability and
  accepted, and both attempt counters went up by one. Every sequence of further calls made
  less than \<open>JOIN_RETRY_DELAY\<close> milliseconds (unsigned) after \<open>t0\<close> then returns false by
  the too-soon path: nothing is forwarded or logged and the manager, with both counters,
  is unchanged.
\<close>

theorem C3_join_retry_window:
  assumes "\<not> isJoined m" and "startJoin m e t0 st0 = (True, m1, e1)"
    and "\<forall>(t, st) \<in> set cs. t - t0 < JOIN_RETRY_DELAY"
  shows "e1 = emit [Println ''LoRaWAN Manager: Starting OTAA join...'',
                    BeginOTAA (devEUI m) (appEUI m) (appKey m),
                    Println ''LoRaWAN Manager: OTAA join initiated successfully!''] e
    \<and> joinAttempts m1 = joinAttempts m + 1
    \<and> totalJoinAttempts m1 = totalJoinAttempts m + 1
    \<and> run (join_calls cs) (m1, e1) = (replicate (length cs) False, m1, e1)"
proof -
  note a = startJoin_accepted [OF assms(1,2)]
  from a(4) a(1) assms(1) have m1: "isInitialized m1" "\<not> isJoined m1" "lastJoinAttempt m1 = t0"
    by simp_all
  from assms(3) m1(3) have "\<forall>(t, st) \<in> set cs. t - lastJoinAttempt m1 < JOIN_RETRY_DELAY"
    by simp
  from run_joins_too_soon [OF m1(1,2) this]
  have "run (join_calls cs) (m1, e1) = (replicate (length cs) False, m1, e1)" .
  moreover have "joinAttempts m1 = joinAttempts m + 1" "totalJoinAttempts m1 = totalJoinAttempts m + 1"
    using a(4) by simp_all
  ultimately show ?thesis using a(5) by simp
qed

theorem C3_join_retry_window_witness:
  "\<not> isJoined ready_mgr
   \<and> startJoin ready_mgr env0 30000 0 =
       (True, ready_mgr\<lparr>lastJoinAttempt := 30000, joinAttempts := 1, totalJoinAttempts := 1\<rparr>,
        emit [Println ''LoRaWAN Manager: Starting OTAA join...'',
              BeginOTAA (replicate 8 0) (replicate 8 0) (replicate 16 0),
              Println ''LoRaWAN Manager: OTAA join initiated successfully!''] env0)
   \<and> (30001 - 30000 :: u32) < JOIN_RETRY_DELAY
   \<and> (45000 - 30000 :: u32) < JOIN_RETRY_DELAY
   \<and> (59999 - 30000 :: u32) < JOIN_RETRY_DELAY
   \<and> fst (run (join_calls [(30001, 0), (45000, 0), (59999, - 1)])
        (snd (startJoin ready_mgr env0 30000 0))) = [False, False, False]
   \<and> snd (run (join_calls [(30001, 0), (45000, 0), (59999, - 1)])
        (snd (startJoin ready_mgr env0 30000 0))) = snd (startJoin ready_mgr env0 30000 0)"
proof -
  have h1: "\<not> isJoined ready_mgr" by (simp add: ready_mgr_def LoRaWANManager_new_def)
  have h2: "startJoin ready_mgr env0 30000 0 =
       (True, ready_mgr\<lparr>lastJoinAttempt := 30000, joinAttempts := 1, totalJoinAttempts := 1\<rparr>,
        emit [Println ''LoRaWAN Manager: Starting OTAA join...'',
              BeginOTAA (replicate 8 0) (replicate 8 0) (replicate 16 0),
              Println ''LoRaWAN Manager: OTAA join initiated successfully!''] env0)"
    by (simp add: startJoin_def ready_mgr_def LoRaWANManager_new_def JOIN_RETRY_DELAY_def
        MAX_JOIN_ATTEMPTS_def RADIOLIB_ERR_NONE_def emit_def Let_def word_le_nat_alt)
  have h3: "\<forall>(t, st) \<in> set [(30001, 0), (45000, 0), (59999, - 1)].
              t - 30000 < JOIN_RETRY_DELAY"
    by (simp add: JOIN_RETRY_DELAY_def)
  note r = C3_join_retry_window [OF h1 h2 h3, THEN conjunct2, THEN conjunct2,
      THEN conjunct2]
  show ?thesis using h1 by (simp add: h2 r JOIN_RETRY_DELAY_def)
qed

text \<open>
  The claim as stated fails: two calls one millisecond apart are both forwarded when the
  capability rejects the first, and the second increments both counters.
\<close>

theorem C3_counterexample:
  "(30001 - 30000 :: u32) < JOIN_RETRY_DELAY
   \<and> isInitialized ready_mgr \<and> \<not> isJoined ready_mgr
   \<and> joinAttempts ready_mgr < MAX_JOIN_ATTEMPTS
   \<and> run (join_calls [(30000, - 1), (30001, 0)]) (ready_mgr, env0) =
       ([False, True],
        ready_mgr\<lparr>lastJoinAttempt := 30001, joinAttempts := 1, totalJoinAttempts := 1\<rparr>,
        emit [Println ''LoRaWAN Manager: Starting OTAA join...'',
              BeginOTAA (replicate 8 0) (replicate 8 0) (replicate 16 0),
              Print ''LoRaWAN Manager: OTAA join initiation failed: '', PrintlnError (- 1),
              Println ''LoRaWAN Manager: Starting OTAA join...'',
              BeginOTAA (replicate 8 0) (replicate 8 0) (replicate 16 0),
              Println ''LoRaWAN Manager: OTAA join initiated successfully!''] env0)"
  by (simp add: join_calls_def startJoin_def ready_mgr_def LoRaWANManager_new_def
      JOIN_RETRY_DELAY_def MAX_JOIN_ATTEMPTS_def RADIOLIB_ERR_NONE_def emit_def Let_def
      env0_def word_le_nat_alt word_less_nat_alt)

section \<open>Session persistence\<close>

lemma persisted_saveSession:
  "persisted (nvs (saveSession m True e)) = snapshot m"
  by (simp add: saveSession_def persisted_def snapshot_def emit_def STORAGE_NAMESPACE_def)

lemma nvs_emit: "nvs (emit evs e) = nvs e"
  by (simp add: emit_def)

lemma trace_emit: "trace (emit evs e) = trace e @ evs"
  by (simp add: emit_def)

lemma checkJoinStatus_first_success:
  assumes "isInitialized m" "\<not> isJoined m"
  shows "checkJoinStatus m e True dev_addr prefs_ok =
    (True, m\<lparr>isJoined := True, joinAttempts := 0\<rparr>,
     saveSession (m\<lparr>isJoined := True, joinAttempts := 0\<rparr>) prefs_ok
       (emit [NodeIsJoined, Println ''LoRaWAN Manager: OTAA join successful!'',
              Print ''DevAddr: 0x'', PrintlnHex dev_addr] e))"
  using assms by (simp add: checkJoinStatus_def Let_def)

lemma sendCustomPayload_success:
  assumes "canTransmit m now"
  shows "sendCustomPayload m e payload len port now RADIOLIB_ERR_NONE now_tx prefs_ok =
    (True,
     m\<lparr>totalTransmissions := totalTransmissions m + 1,
       successfulTransmissions := successfulTransmissions m + 1,
       lastTxTime := now_tx, txCounter := txCounter m + 1\<rparr>,
     saveSession (m\<lparr>totalTransmissions := totalTransmissions m + 1,
       successfulTransmissions := successfulTransmissions m + 1,
       lastTxTime := now_tx, txCounter := txCounter m + 1\<rparr>) prefs_ok
       (emit [Println ''LoRaWAN Manager: Transmission successful!'']
         (emit [Print ''LoRaWAN Manager: Sending payload ('', PrintNum len,
                Print '' bytes) on port '', PrintlnNum (unat port),
                SendReceive payload len port] e)))"
  using assms by (simp add: sendCustomPayload_def Let_def)

lemma sendCustomPayload_failure:
  assumes "canTransmit m now" "tx_state \<noteq> RADIOLIB_ERR_NONE"
  shows "sendCustomPayload m e payload len port now tx_state now_tx prefs_ok =
    (False,
     m\<lparr>totalTransmissions := totalTransmissions m + 1,
       failedTransmissions := failedTransmissions m + 1\<rparr>,
     emit [Print ''LoRaWAN Manager: Transmission failed: '', PrintlnError tx_state]
       (emit [Print ''LoRaWAN Manager: Sending payload ('', PrintNum len,
              Print '' bytes) on port '', PrintlnNum (unat port),
              SendReceive payload len port] e))"
  using assms by (simp add: sendCustomPayload_def Let_def)

lemma sendCustomPayload_gated:
  assumes "\<not> canTransmit m now"
  shows "sendCustomPayload m e payload len port now tx_state now_tx prefs_ok =
    (False, m, emit [Println ''LoRaWAN Manager: Cannot transmit at this time!''] e)"
  using assms by (simp add: sendCustomPayload_def)

lemma sendCustomPayload_False_nvs:
  assumes "sendCustomPayload m e payload len port now tx_state now_tx prefs_ok = (False, m', e')"
  shows "nvs e' = nvs e" "txCounter m' = txCounter m"
proof -
  consider (g) "\<not> canTransmit m now" | (f) "canTransmit m now" "tx_state \<noteq> RADIOLIB_ERR_NONE"
    | (s) "canTransmit m now" "tx_state = RADIOLIB_ERR_NONE" by blast
  then have "nvs e' = nvs e \<and> txCounter m' = txCounter m"
  proof cases
    case g
    from sendCustomPayload_gated [OF g, of e payload len port tx_state now_tx prefs_ok] assms
    show ?thesis by (auto simp: nvs_emit)
  next
    case f
    from sendCustomPayload_failure [OF f, of e payload len port now_tx prefs_ok] assms
    show ?thesis by (auto simp: nvs_emit)
  next
    case s
    from sendCustomPayload_success [OF s(1), of e payload len port now_tx prefs_ok] assms s(2)
    show ?thesis by auto
  qed
  then show "nvs e' = nvs e" "txCounter m' = txCounter m" by simp_all
qed

text \<open>
  C4 (as the code has it). With the store opening, the session record is written when
  \<open>checkJoinStatus\<close> first observes the activation and when \<open>sendCustomPayload\<close>
  succeeds, and then equals the manager's joined flag and counters, \<open>tx_counter\<close> and the
  success counter having advanced. A \<open>sendCustomPayload\<close> call that returns false, gated
  or failed at the capability, writes nothing, so the stored counters are those of the
  last successful transmit or activation.
\<close>

theorem C4_session_written_on_success:
  "(isInitialized m \<and> \<not> isJoined m
      \<and> checkJoinStatus m e True dev_addr True = (r, m1, e1) \<longrightarrow>
        r \<and> isJoined m1 \<and> persisted (nvs e1) = snapshot m1)
   \<and> (sendCustomPayload m e payload len port now tx_state now_tx True = (True, m2, e2) \<longrightarrow>
        persisted (nvs e2) = snapshot m2
        \<and> txCounter m2 = txCounter m + 1
        \<and> successfulTransmissions m2 = successfulTransmissions m + 1
        \<and> totalTransmissions m2 = totalTransmissions m + 1)
   \<and> (sendCustomPayload m e payload len port now tx_state now_tx prefs_ok = (False, m3, e3) \<longrightarrow>
        nvs e3 = nvs e \<and> txCounter m3 = txCounter m)"
proof (intro conjI impI)
  assume a: "isInitialized m \<and> \<not> isJoined m
      \<and> checkJoinStatus m e True dev_addr True = (r, m1, e1)"
  then have i: "isInitialized m" "\<not> isJoined m" by simp_all
  from checkJoinStatus_first_success [OF i, of e dev_addr True] a
  have r: "r" and m1: "m1 = m\<lparr>isJoined := True, joinAttempts := 0\<rparr>"
    and e1: "e1 = saveSession m1 True
       (emit [NodeIsJoined, Println ''LoRaWAN Manager: OTAA join successful!'',
              Print ''DevAddr: 0x'', PrintlnHex dev_addr] e)"
    by auto
  show "r" by (rule r)
  show "isJoined m1" by (simp add: m1)
  show "persisted (nvs e1) = snapshot m1" by (simp only: e1 persisted_saveSession)
next
  assume a: "sendCustomPayload m e payload len port now tx_state now_tx True = (True, m2, e2)"
  note t = sendCustomPayload_True [OF a]
  from sendCustomPayload_success [OF t(1), of e payload len port now_tx True] a t(2)
  have e2: "e2 = saveSession m2 True
       (emit [Println ''LoRaWAN Manager: Transmission successful!'']
         (emit [Print ''LoRaWAN Manager: Sending payload ('', PrintNum len,
                Print '' bytes) on port '', PrintlnNum (unat port),
                SendReceive payload len port] e))"
    by auto
  show "persisted (nvs e2) = snapshot m2" by (simp only: e2 persisted_saveSession)
  show "txCounter m2 = txCounter m + 1" by (simp add: t(3))
  show "successfulTransmissions m2 = successfulTransmissions m + 1" by (simp add: t(3))
  show "totalTransmissions m2 = totalTransmissions m + 1" by (simp add: t(3))
next
  assume a: "sendCustomPayload m e payload len port now tx_state now_tx prefs_ok = (False, m3, e3)"
  show "nvs e3 = nvs e" by (rule sendCustomPayload_False_nvs(1) [OF a])
  show "txCounter m3 = txCounter m" by (rule sendCustomPayload_False_nvs(2) [OF a])
qed

text \<open>
  The claim as stated fails: after \<open>begin\<close>, a successful activation and one failed
  transmit, the manager counts one attempt and one failure while the store still holds 0
  for both.
\<close>

theorem C4_counterexample:
  "fst (run [Begin 0 True, CheckJoinStatus True 5 True,
             SendCustomPayload [1, 2] 2 1 60000 (- 5) 60001 True] (LoRaWANManager_new, env0))
     = [True, True, False]
   \<and> totalTransmissions (fst (snd (run [Begin 0 True, CheckJoinStatus True 5 True,
             SendCustomPayload [1, 2] 2 1 60000 (- 5) 60001 True] (LoRaWANManager_new, env0)))) = 1
   \<and> failedTransmissions (fst (snd (run [Begin 0 True, CheckJoinStatus True 5 True,
             SendCustomPayload [1, 2] 2 1 60000 (- 5) 60001 True] (LoRaWANManager_new, env0)))) = 1
   \<and> persisted (nvs (snd (snd (run [Begin 0 True, CheckJoinStatus True 5 True,
             SendCustomPayload [1, 2] 2 1 60000 (- 5) 60001 True] (LoRaWANManager_new, env0)))))
     = (Some (PBool True), Some (PUInt 0), Some (PUInt 0), Some (PUInt 0), Some (PUInt 0))"
  by (simp add: eval_defs persisted_def)


theorem C4_session_written_on_success_witness:
  "isInitialized ready_mgr \<and> \<not> isJoined ready_mgr
   \<and> fst (checkJoinStatus ready_mgr env0 True 5 True)
   \<and> persisted (nvs (snd (snd (checkJoinStatus ready_mgr env0 True 5 True)))) =
       snapshot (fst (snd (checkJoinStatus ready_mgr env0 True 5 True)))
   \<and> fst (sendCustomPayload joined_mgr env0 [1, 2] 2 1 60000 0 60001 True)
   \<and> persisted (nvs (snd (snd (sendCustomPayload joined_mgr env0 [1, 2] 2 1 60000 0 60001 True)))) =
       snapshot (fst (snd (sendCustomPayload joined_mgr env0 [1, 2] 2 1 60000 0 60001 True)))
   \<and> \<not> fst (sendCustomPayload joined_mgr env0 [1, 2] 2 1 60000 (- 5) 60001 True)
   \<and> nvs (snd (snd (sendCustomPayload joined_mgr env0 [1, 2] 2 1 60000 (- 5) 60001 True))) = nvs env0"
proof -
  have i: "isInitialized ready_mgr \<and> \<not> isJoined ready_mgr"
    by (simp add: ready_mgr_def LoRaWANManager_new_def)
  obtain r m1 e1 where c: "checkJoinStatus ready_mgr env0 True 5 True = (r, m1, e1)"
    using prod_cases3 by blast
  have g: "canTransmit joined_mgr 60000"
    by (simp add: canTransmit_def joined_mgr_def LoRaWANManager_new_def TX_INTERVAL_MS_def)
  obtain m2 e2 where s: "sendCustomPayload joined_mgr env0 [1, 2] 2 1 60000 0 60001 True = (True, m2, e2)"
    using sendCustomPayload_success [OF g, of env0 "[1, 2]" 2 1 60001 True]
    by (simp add: RADIOLIB_ERR_NONE_def)
  obtain m3 e3 where f: "sendCustomPayload joined_mgr env0 [1, 2] 2 1 60000 (- 5) 60001 True = (False, m3, e3)"
    using sendCustomPayload_failure [OF g, of "- 5" env0 "[1, 2]" 2 1 60001 True]
    by (simp add: RADIOLIB_ERR_NONE_def)
  from C4_session_written_on_success
    [where m = ready_mgr and e = env0 and dev_addr = 5 and r = r and ?m1.0 = m1 and ?e1.0 = e1] i c
  have 1: "r \<and> persisted (nvs e1) = snapshot m1" by simp
  from C4_session_written_on_success
    [where m = joined_mgr and e = env0 and payload = "[1, 2]" and len = 2 and port = 1
       and now = 60000 and tx_state = 0 and now_tx = 60001 and ?m2.0 = m2 and ?e2.0 = e2] s
  have 2: "persisted (nvs e2) = snapshot m2" by simp
  from C4_session_written_on_success
    [where m = joined_mgr and e = env0 and payload = "[1, 2]" and len = 2 and port = 1
       and now = 60000 and tx_state = "- 5" and now_tx = 60001 and prefs_ok = True
       and ?m3.0 = m3 and ?e3.0 = e3] f
  have 3: "nvs e3 = nvs env0" by simp
  from i c s f 1 2 3 show ?thesis by simp
qed

section \<open>Statistics\<close>

lemma saveSession_nvs_False: "nvs (saveSession m False e) = nvs e"
  by (simp add: saveSession_def)

lemma store_consistent_saveSession:
  assumes "stats_consistent m" "store_consistent (nvs e)"
  shows "store_consistent (nvs (saveSession m prefs_ok e))"
  using assms
  by (simp add: saveSession_def store_consistent_def stats_consistent_def getUInt_def emit_def
      STORAGE_NAMESPACE_def)

lemma hexStringToBytes_cases:
  obtains b where "hexStringToBytes s bytes n = (True, b)"
  | b where "hexStringToBytes s bytes n = (False, b)"
  by (cases "hexStringToBytes s bytes n") auto

lemma parseCredentials_frame:
  assumes "parseCredentials m e = (r, m', e')"
  shows "totalTransmissions m' = totalTransmissions m"
    "successfulTransmissions m' = successfulTransmissions m"
    "failedTransmissions m' = failedTransmissions m"
    "nvs e' = nvs e"
  using assms
  by (auto simp: parseCredentials_def nvs_emit split: prod.splits bool.splits)

lemma loadSession_frame:
  assumes "loadSession m prefs_ok e = (r, m', e')"
  shows "nvs e' = nvs e"
    "stats_consistent m \<Longrightarrow> store_consistent (nvs e) \<Longrightarrow> stats_consistent m'"
  using assms
  by (auto simp: loadSession_def Let_def nvs_emit stats_consistent_def store_consistent_def
      split: if_splits)

lemma initializeRadio_nvs:
  assumes "initializeRadio e radio_state = (r, e')"
  shows "nvs e' = nvs e"
  using assms by (auto simp: initializeRadio_def Let_def nvs_emit split: if_splits)

lemma begin_mgr_inv:
  assumes "begin_mgr m e radio_state prefs_ok = (r, m', e')"
    and "stats_consistent m" "store_consistent (nvs e)"
  shows "stats_consistent m' \<and> store_consistent (nvs e')"
proof -
  obtain r1 e1 where 1: "initializeRadio (emit [Println ''LoRaWAN Manager: Initializing...''] e) radio_state = (r1, e1)"
    by (cases "initializeRadio (emit [Println ''LoRaWAN Manager: Initializing...''] e) radio_state")
  obtain r2 m2 e2 where 2: "parseCredentials m e1 = (r2, m2, e2)"
    using prod_cases3 by blast
  obtain r3 m3 e3 where 3: "loadSession m2 prefs_ok e2 = (r3, m3, e3)"
    using prod_cases3 by blast
  have n1: "nvs e1 = nvs e" using initializeRadio_nvs [OF 1] by (simp add: nvs_emit)
  note p = parseCredentials_frame [OF 2]
  have c2: "stats_consistent m2" using assms(2) p by (simp add: stats_consistent_def)
  have s2: "store_consistent (nvs e2)" using assms(3) p(4) n1 by simp
  note l = loadSession_frame [OF 3]
  have c3: "stats_consistent m3" using l(2) c2 s2 by simp
  have s3: "store_consistent (nvs e3)" using l(1) s2 by simp
  from assms(1) 1 2 3 show ?thesis
    using assms(2,3) n1 c2 s2 c3 s3
    by (auto simp: begin_mgr_def nvs_emit stats_consistent_def split: bool.splits)
qed

lemma startJoin_frame:
  assumes "startJoin m e now join_state = (r, m', e')"
  shows "totalTransmissions m' = totalTransmissions m"
    "successfulTransmissions m' = successfulTransmissions m"
    "failedTransmissions m' = failedTransmissions m"
    "nvs e' = nvs e"
  using assms by (auto simp: startJoin_def Let_def nvs_emit split: if_splits)

lemma checkJoinStatus_frame:
  assumes "checkJoinStatus m e node_joined dev_addr prefs_ok = (r, m', e')"
  shows "totalTransmissions m' = totalTransmissions m"
    "successfulTransmissions m' = successfulTransmissions m"
    "failedTransmissions m' = failedTransmissions m"
    "stats_consistent m \<Longrightarrow> store_consistent (nvs e) \<Longrightarrow> store_consistent (nvs e')"
  using assms
  by (auto simp: checkJoinStatus_def Let_def nvs_emit stats_consistent_def
      intro!: store_consistent_saveSession split: if_splits)

lemma sendCustomPayload_inv:
  assumes "sendCustomPayload m e payload len port now tx_state now_tx prefs_ok = (r, m', e')"
    and "stats_consistent m" "store_consistent (nvs e)"
  shows "stats_consistent m' \<and> store_consistent (nvs e')"
proof -
  consider (g) "\<not> canTransmit m now" | (f) "canTransmit m now" "tx_state \<noteq> RADIOLIB_ERR_NONE"
    | (s) "canTransmit m now" "tx_state = RADIOLIB_ERR_NONE" by blast
  then show ?thesis
  proof cases
    case g
    from sendCustomPayload_gated [OF g, of e payload len port tx_state now_tx prefs_ok] assms
    show ?thesis by (auto simp: nvs_emit)
  next
    case f
    from sendCustomPayload_failure [OF f, of e payload len port now_tx prefs_ok] assms
    show ?thesis by (auto simp: nvs_emit stats_consistent_def)
  next
    case s
    from sendCustomPayload_success [OF s(1), of e payload len port now_tx prefs_ok] assms s(2)
    show ?thesis
      by (auto simp: nvs_emit stats_consistent_def intro!: store_consistent_saveSession)
  qed
qed

lemma sendCustomPayload_mono:
  assumes "sendCustomPayload m e payload len port now tx_state now_tx prefs_ok = (r, m', e')"
    and "totalTransmissions m \<noteq> - 1" "successfulTransmissions m \<noteq> - 1"
        "failedTransmissions m \<noteq> - 1"
  shows "totalTransmissions m \<le> totalTransmissions m'
       \<and> successfulTransmissions m \<le> successfulTransmissions m'
       \<and> failedTransmissions m \<le> failedTransmissions m'"
proof -
  have inc: "w \<le> w + 1" if "w \<noteq> - 1" for w :: u32
    using that inc_less_eq_self_iff_eq [of w] by (simp add: not_le less_imp_le)
  consider (g) "\<not> canTransmit m now" | (f) "canTransmit m now" "tx_state \<noteq> RADIOLIB_ERR_NONE"
    | (s) "canTransmit m now" "tx_state = RADIOLIB_ERR_NONE" by blast
  then show ?thesis
  proof cases
    case g
    from sendCustomPayload_gated [OF g, of e payload len port tx_state now_tx prefs_ok] assms(1)
    show ?thesis by auto
  next
    case f
    from sendCustomPayload_failure [OF f, of e payload len port now_tx prefs_ok] assms(1)
    show ?thesis using inc [OF assms(2)] inc [OF assms(4)] by auto
  next
    case s
    from sendCustomPayload_success [OF s(1), of e payload len port now_tx prefs_ok] assms(1) s(2)
    show ?thesis using inc [OF assms(2)] inc [OF assms(3)] by auto
  qed
qed

lemma encodeGPSData_32: "\<exists>b. encodeGPSData gps (replicate 32 0) = Some (13, b)"
  by (simp add: encodeGPSData_def)

lemma encodeGeofenceEvent_32: "\<exists>b. encodeGeofenceEvent ev (replicate 32 0) = Some (15, b)"
  by (simp add: encodeGeofenceEvent_def)

lemma sendGPSData_cases:
  "sendGPSData m e gps now0 now tx_state now_tx prefs_ok = (False, m, e)
   \<or> (\<exists>b. sendGPSData m e gps now0 now tx_state now_tx prefs_ok =
             sendCustomPayload m e b 13 LORAWAN_PORT now tx_state now_tx prefs_ok)"
  using encodeGPSData_32 [of gps] by (auto simp: sendGPSData_def)

lemma sendGeofenceEvent_cases:
  "sendGeofenceEvent m e ev now0 now tx_state now_tx prefs_ok = (False, m, e)
   \<or> (\<exists>b. sendGeofenceEvent m e ev now0 now tx_state now_tx prefs_ok =
             sendCustomPayload m e b 15 LORAWAN_PORT now tx_state now_tx prefs_ok)"
  using encodeGeofenceEvent_32 [of ev] by (auto simp: sendGeofenceEvent_def)

lemma step_inv:
  assumes "step c (m, e) = (r, m', e')" "stats_consistent m" "store_consistent (nvs e)"
  shows "stats_consistent m' \<and> store_consistent (nvs e')"
proof (cases c)
  case (Begin radio_state prefs_ok)
  with assms begin_mgr_inv show ?thesis by simp
next
  case (StartJoin now join_state)
  with assms have s: "startJoin m e now join_state = (r, m', e')" by simp
  from startJoin_frame [OF s] assms(2,3) show ?thesis by (simp add: stats_consistent_def)
next
  case (CheckJoinStatus node_joined dev_addr prefs_ok)
  with assms have s: "checkJoinStatus m e node_joined dev_addr prefs_ok = (r, m', e')" by simp
  from checkJoinStatus_frame [OF s] assms(2,3) show ?thesis by (simp add: stats_consistent_def)
next
  case (SendGPSData gps now0 now tx_state now_tx prefs_ok)
  with assms have s: "sendGPSData m e gps now0 now tx_state now_tx prefs_ok = (r, m', e')" by simp
  from sendGPSData_cases [of m e gps now0 now tx_state now_tx prefs_ok] s assms(2,3)
    sendCustomPayload_inv
  show ?thesis by (metis prod.inject)
next
  case (SendGeofenceEvent ev now0 now tx_state now_tx prefs_ok)
  with assms have s: "sendGeofenceEvent m e ev now0 now tx_state now_tx prefs_ok = (r, m', e')" by simp
  from sendGeofenceEvent_cases [of m e ev now0 now tx_state now_tx prefs_ok] s assms(2,3)
    sendCustomPayload_inv
  show ?thesis by (metis prod.inject)
next
  case (SendCustomPayload payload len port now tx_state now_tx prefs_ok)
  with assms sendCustomPayload_inv show ?thesis by simp
qed

lemma run_inv:
  assumes "run cs (m, e) = (rs, m', e')" "stats_consistent m" "store_consistent (nvs e)"
  shows "stats_consistent m' \<and> store_consistent (nvs e')"
  using assms
proof (induction cs arbitrary: m e rs)
  case Nil
  then show ?case by simp
next
  case (Cons c cs)
  obtain r m1 e1 where 1: "step c (m, e) = (r, m1, e1)" using prod_cases3 by blast
  obtain rs1 m2 e2 where 2: "run cs (m1, e1) = (rs1, m2, e2)" using prod_cases3 by blast
  from Cons.prems(1) 1 have 2: "run cs (m1, e1) = (rs1, m', e')"
    using 2 by simp
  from step_inv [OF 1 Cons.prems(2,3)] have "stats_consistent m1" "store_consistent (nvs e1)"
    by simp_all
  from Cons.IH [OF 2 this] show ?case .
qed

lemma step_mono:
  assumes "step c (m, e) = (r, m', e')" "\<not> is_Begin c"
    and "totalTransmissions m \<noteq> - 1" "successfulTransmissions m \<noteq> - 1"
        "failedTransmissions m \<noteq> - 1"
  shows "totalTransmissions m \<le> totalTransmissions m'
       \<and> successfulTransmissions m \<le> successfulTransmissions m'
       \<and> failedTransmissions m \<le> failedTransmissions m'"
proof (cases c)
  case (Begin radio_state prefs_ok)
  with assms(2) show ?thesis by simp
next
  case (StartJoin now join_state)
  with assms have s: "startJoin m e now join_state = (r, m', e')" by simp
  from startJoin_frame [OF s] show ?thesis by simp
next
  case (CheckJoinStatus node_joined dev_addr prefs_ok)
  with assms have s: "checkJoinStatus m e node_joined dev_addr prefs_ok = (r, m', e')" by simp
  from checkJoinStatus_frame [OF s] show ?thesis by simp
next
  case (SendGPSData gps now0 now tx_state now_tx prefs_ok)
  with assms have s: "sendGPSData m e gps now0 now tx_state now_tx prefs_ok = (r, m', e')" by simp
  from sendGPSData_cases [of m e gps now0 now tx_state now_tx prefs_ok]
  show ?thesis
  proof
    assume "sendGPSData m e gps now0 now tx_state now_tx prefs_ok = (False, m, e)"
    with s show ?thesis by simp
  next
    assume "\<exists>b. sendGPSData m e gps now0 now tx_state now_tx prefs_ok =
             sendCustomPayload m e b 13 LORAWAN_PORT now tx_state now_tx prefs_ok"
    then obtain b where "sendCustomPayload m e b 13 LORAWAN_PORT now tx_state now_tx prefs_ok = (r, m', e')"
      using s by auto
    from sendCustomPayload_mono [OF this assms(3,4,5)] show ?thesis .
  qed
next
  case (SendGeofenceEvent ev now0 now tx_state now_tx prefs_ok)
  with assms have s: "sendGeofenceEvent m e ev now0 now tx_state now_tx prefs_ok = (r, m', e')" by simp
  from sendGeofenceEvent_cases [of m e ev now0 now tx_state now_tx prefs_ok]
  show ?thesis
  proof
    assume "sendGeofenceEvent m e ev now0 now tx_state now_tx prefs_ok = (False, m, e)"
    with s show ?thesis by simp
  next
    assume "\<exists>b. sendGeofenceEvent m e ev now0 now tx_state now_tx prefs_ok =
             sendCustomPayload m e b 15 LORAWAN_PORT now tx_state now_tx prefs_ok"
    then obtain b where "sendCustomPayload m e b 15 LORAWAN_PORT now tx_state now_tx prefs_ok = (r, m', e')"
      using s by auto
    from sendCustomPayload_mono [OF this assms(3,4,5)] show ?thesis .
  qed
next
  case (SendCustomPayload payload len port now tx_state now_tx prefs_ok)
  with assms have s: "sendCustomPayload m e payload len port now tx_state now_tx prefs_ok = (r, m', e')"
    by simp
  from sendCustomPayload_mono [OF s assms(3,4,5)] show ?thesis .
qed


text \<open>
  C6 (as the code has it). From a freshly constructed manager and a store whose session
  record satisfies \<open>total_tx = success_tx + failed_tx\<close> (absent keys read as 0), after
  every sequence of operations \<open>totalTransmissions = successfulTransmissions +
  failedTransmissions\<close> holds in \<open>uint32_t\<close> arithmetic, so in particular after every
  \<open>sendCustomPayload\<close> call. Across every operation other than \<open>begin\<close>, the three
  counters do not decrease (unsigned order) as long as none of them is at \<open>2^32 - 1\<close>.
\<close>

theorem C6_statistics_invariants:
  "(store_consistent (nvs e0) \<and> run cs (LoRaWANManager_new, e0) = (rs, m, e) \<longrightarrow>
      totalTransmissions m = successfulTransmissions m + failedTransmissions m)
   \<and> (\<not> is_Begin c \<and> totalTransmissions m1 \<noteq> - 1 \<and> successfulTransmissions m1 \<noteq> - 1
        \<and> failedTransmissions m1 \<noteq> - 1 \<and> step c (m1, e1) = (r, m2, e2) \<longrightarrow>
      totalTransmissions m1 \<le> totalTransmissions m2
      \<and> successfulTransmissions m1 \<le> successfulTransmissions m2
      \<and> failedTransmissions m1 \<le> failedTransmissions m2)"
proof (intro conjI impI)
  assume a: "store_consistent (nvs e0) \<and> run cs (LoRaWANManager_new, e0) = (rs, m, e)"
  have "stats_consistent LoRaWANManager_new"
    by (simp add: stats_consistent_def LoRaWANManager_new_def)
  with a run_inv [of cs LoRaWANManager_new e0 rs m e] have "stats_consistent m" by simp
  then show "totalTransmissions m = successfulTransmissions m + failedTransmissions m"
    by (simp add: stats_consistent_def)
next
  assume a: "\<not> is_Begin c \<and> totalTransmissions m1 \<noteq> - 1 \<and> successfulTransmissions m1 \<noteq> - 1
        \<and> failedTransmissions m1 \<noteq> - 1 \<and> step c (m1, e1) = (r, m2, e2)"
  then have "totalTransmissions m1 \<le> totalTransmissions m2
      \<and> successfulTransmissions m1 \<le> successfulTransmissions m2
      \<and> failedTransmissions m1 \<le> failedTransmissions m2"
    using step_mono [of c m1 e1 r m2 e2] by simp
  then show "totalTransmissions m1 \<le> totalTransmissions m2"
    "successfulTransmissions m1 \<le> successfulTransmissions m2"
    "failedTransmissions m1 \<le> failedTransmissions m2" by simp_all
qed

theorem C6_statistics_invariants_witness:
  "store_consistent (nvs env0)
   \<and> getStatistics (fst (snd (run [Begin 0 True, CheckJoinStatus True 5 True,
         SendCustomPayload [1, 2] 2 1 60000 0 60001 True,
         SendCustomPayload [1, 2] 2 1 120001 (- 5) 120002 True] (LoRaWANManager_new, env0))))
       = (2, 1, 1)
   \<and> \<not> is_Begin (SendCustomPayload [1, 2] 2 1 60000 0 60001 True)
   \<and> getStatistics joined_mgr = (0, 0, 0)
   \<and> getStatistics (fst (snd (step (SendCustomPayload [1, 2] 2 1 60000 0 60001 True)
         (joined_mgr, env0)))) = (1, 1, 0)"
proof -
  have h: "store_consistent (nvs env0)"
    by (simp add: store_consistent_def env0_def getUInt_def)
  obtain rs m e where r: "run [Begin 0 True, CheckJoinStatus True 5 True,
         SendCustomPayload [1, 2] 2 1 60000 0 60001 True,
         SendCustomPayload [1, 2] 2 1 120001 (- 5) 120002 True] (LoRaWANManager_new, env0) = (rs, m, e)"
    using prod_cases3 by blast
  have ev: "getStatistics (fst (snd (run [Begin 0 True, CheckJoinStatus True 5 True,
         SendCustomPayload [1, 2] 2 1 60000 0 60001 True,
         SendCustomPayload [1, 2] 2 1 120001 (- 5) 120002 True] (LoRaWANManager_new, env0))))
       = (2, 1, 1)"
    by (simp add: eval_defs getStatistics_def)
  obtain r' m2 e2 where s: "step (SendCustomPayload [1, 2] 2 1 60000 0 60001 True)
         (joined_mgr, env0) = (r', m2, e2)"
    using prod_cases3 by blast
  have ev2: "getStatistics (fst (snd (step (SendCustomPayload [1, 2] 2 1 60000 0 60001 True)
         (joined_mgr, env0)))) = (1, 1, 0)"
    by (simp add: eval_defs getStatistics_def)
  have j: "getStatistics joined_mgr = (0, 0, 0)"
    by (simp add: getStatistics_def joined_mgr_def LoRaWANManager_new_def)
  from C6_statistics_invariants
    [where ?e0.0 = env0 and cs = "[Begin 0 True, CheckJoinStatus True 5 True,
         SendCustomPayload [1, 2] 2 1 60000 0 60001 True,
         SendCustomPayload [1, 2] 2 1 120001 (- 5) 120002 True]" and rs = rs and m = m and e = e
       and c = "SendCustomPayload [1, 2] 2 1 60000 0 60001 True" and ?m1.0 = joined_mgr
       and ?e1.0 = env0 and r = r' and ?m2.0 = m2 and ?e2.0 = e2] h r s j
  have "totalTransmissions m = successfulTransmissions m + failedTransmissions m
    \<and> totalTransmissions joined_mgr \<le> totalTransmissions m2"
    by (simp add: getStatistics_def)
  with h ev ev2 j show ?thesis by simp
qed

text \<open>
  The claim as stated fails in three ways. A device that boots on a record written after
  \<open>2^32 - 1\<close> successful transmissions wraps \<open>totalTransmissions\<close> and
  \<open>successfulTransmissions\<close> to 0 on its next success. A second \<open>begin\<close> after a failed
  transmit reloads the counters from the store, which the failure did not write, and
  takes them from 1 back to 0. A device that boots on a record of which only
  \<open>tx_counter\<close> and \<open>total_tx\<close> were renewed has \<open>total = 7\<close>, \<open>success = 6\<close>, \<open>failed = 0\<close>
  after its next success.
\<close>

theorem C6_counterexample:
  "getStatistics (fst (snd (run [Begin 0 True] (LoRaWANManager_new, worn_store))))
     = (0xFFFFFFFF, 0xFFFFFFFF, 0)
   \<and> getStatistics (fst (snd (run [Begin 0 True,
         SendCustomPayload [1, 2] 2 1 60000 0 60001 True] (LoRaWANManager_new, worn_store))))
     = (0, 0, 0)
   \<and> getStatistics (fst (snd (run [Begin 0 True, CheckJoinStatus True 5 True,
         SendCustomPayload [1, 2] 2 1 60000 (- 5) 60001 True] (LoRaWANManager_new, env0))))
     = (1, 0, 1)
   \<and> getStatistics (fst (snd (run [Begin 0 True, CheckJoinStatus True 5 True,
         SendCustomPayload [1, 2] 2 1 60000 (- 5) 60001 True, Begin 0 True]
         (LoRaWANManager_new, env0))))
     = (0, 0, 0)
   \<and> getStatistics (fst (snd (run [Begin 0 True,
         SendCustomPayload [1, 2] 2 1 60000 0 60001 True] (LoRaWANManager_new, torn_store))))
     = (7, 6, 0)"
  by (simp add: eval_defs getStatistics_def worn_store_def torn_store_def)

section \<open>Payload length\<close>

lemma trace_saveSession:
  "trace (saveSession m prefs_ok e) =
     trace e @ (if prefs_ok then [Println ''LoRaWAN Manager: Session saved!''] else [])"
  by (simp add: saveSession_def emit_def)

text \<open>
  C9 (as the code has it). \<open>sendCustomPayload\<close> has no bound on \<open>length\<close>. Whatever the
  length, the only request it makes of the send capability is, when the gate is open, one
  \<open>sendReceive\<close> with the payload, length and port it was given, unchanged; it returns
  true exactly when the gate is open and the capability reports success, and a failure
  reported by the capability is logged with its code and counted.
\<close>

theorem C9_payload_forwarded_unchanged:
  "\<exists>evs. trace (snd (snd (sendCustomPayload m e payload len port now tx_state now_tx prefs_ok)))
            = trace e @ evs
     \<and> filter is_SendReceive evs =
         (if canTransmit m now then [SendReceive payload len port] else [])
     \<and> fst (sendCustomPayload m e payload len port now tx_state now_tx prefs_ok) =
         (canTransmit m now \<and> tx_state = RADIOLIB_ERR_NONE)
     \<and> (canTransmit m now \<and> tx_state \<noteq> RADIOLIB_ERR_NONE \<longrightarrow>
          PrintlnError tx_state \<in> set evs
          \<and> failedTransmissions (fst (snd (sendCustomPayload m e payload len port now tx_state
                now_tx prefs_ok))) = failedTransmissions m + 1)"
proof -
  consider (g) "\<not> canTransmit m now" | (f) "canTransmit m now" "tx_state \<noteq> RADIOLIB_ERR_NONE"
    | (s) "canTransmit m now" "tx_state = RADIOLIB_ERR_NONE" by blast
  then show ?thesis
  proof cases
    case g
    show ?thesis
      by (rule exI [of _ "[Println ''LoRaWAN Manager: Cannot transmit at this time!'']"])
        (simp add: sendCustomPayload_gated [OF g] trace_emit g)
  next
    case f
    show ?thesis
      by (rule exI [of _ "[Print ''LoRaWAN Manager: Sending payload ('', PrintNum len,
              Print '' bytes) on port '', PrintlnNum (unat port),
              SendReceive payload len port,
              Print ''LoRaWAN Manager: Transmission failed: '', PrintlnError tx_state]"])
        (simp add: sendCustomPayload_failure [OF f] trace_emit f)
  next
    case s
    show ?thesis
      by (rule exI [of _ "[Print ''LoRaWAN Manager: Sending payload ('', PrintNum len,
              Print '' bytes) on port '', PrintlnNum (unat port),
              SendReceive payload len port,
              Println ''LoRaWAN Manager: Transmission successful!'']
              @ (if prefs_ok then [Println ''LoRaWAN Manager: Session saved!''] else [])"])
        (simp add: s(2) sendCustomPayload_success [OF s(1)] trace_emit trace_saveSession s(1))
  qed
qed

theorem C9_payload_forwarded_unchanged_witness:
  "canTransmit joined_mgr 60000 \<and> (- 1105) \<noteq> RADIOLIB_ERR_NONE
   \<and> \<not> fst (sendCustomPayload joined_mgr env0 (replicate 300 7) 300 1 60000 (- 1105) 60001 True)
   \<and> filter is_SendReceive
       (trace (snd (snd (sendCustomPayload joined_mgr env0 (replicate 300 7) 300 1 60000 (- 1105) 60001 True))))
       = [SendReceive (replicate 300 7) 300 1]
   \<and> failedTransmissions
       (fst (snd (sendCustomPayload joined_mgr env0 (replicate 300 7) 300 1 60000 (- 1105) 60001 True))) = 1"
proof -
  have g: "canTransmit joined_mgr 60000"
    by (simp add: canTransmit_def joined_mgr_def LoRaWANManager_new_def TX_INTERVAL_MS_def)
  have n: "(- 1105) \<noteq> RADIOLIB_ERR_NONE" by (simp add: RADIOLIB_ERR_NONE_def)
  have z: "trace env0 = []" "failedTransmissions joined_mgr = 0"
    by (simp_all add: env0_def joined_mgr_def LoRaWANManager_new_def)
  from C9_payload_forwarded_unchanged
    [of joined_mgr env0 "replicate 300 7" 300 1 60000 "- 1105" 60001 True]
  obtain evs where
    "trace (snd (snd (sendCustomPayload joined_mgr env0 (replicate 300 7) 300 1 60000 (- 1105) 60001 True)))
       = trace env0 @ evs"
    "filter is_SendReceive evs =
       (if canTransmit joined_mgr 60000 then [SendReceive (replicate 300 7) 300 1] else [])"
    "fst (sendCustomPayload joined_mgr env0 (replicate 300 7) 300 1 60000 (- 1105) 60001 True) =
       (canTransmit joined_mgr 60000 \<and> (- 1105) = RADIOLIB_ERR_NONE)"
    "canTransmit joined_mgr 60000 \<and> (- 1105) \<noteq> RADIOLIB_ERR_NONE \<longrightarrow>
       PrintlnError (- 1105) \<in> set evs
       \<and> failedTransmissions (fst (snd (sendCustomPayload joined_mgr env0 (replicate 300 7) 300 1
             60000 (- 1105) 60001 True))) = failedTransmissions joined_mgr + 1"
    by blast
  with g n z show ?thesis by simp
qed

text \<open>
  The claim as stated fails: a 300-byte payload, longer than any LoRa frame, is not
  refused by the manager. It is handed to the capability whole, and when the capability
  reports success the call returns true and counts a successful transmission.
\<close>

theorem C9_counterexample:
  "255 < length (replicate 300 (7 :: u8))
   \<and> fst (sendCustomPayload joined_mgr env0 (replicate 300 7) 300 1 60000 0 60001 True)
   \<and> SendReceive (replicate 300 7) 300 1 \<in>
       set (trace (snd (snd (sendCustomPayload joined_mgr env0 (replicate 300 7) 300 1 60000 0 60001 True))))
   \<and> successfulTransmissions
       (fst (snd (sendCustomPayload joined_mgr env0 (replicate 300 7) 300 1 60000 0 60001 True))) = 1"
proof -
  have g: "canTransmit joined_mgr 60000"
    by (simp add: canTransmit_def joined_mgr_def LoRaWANManager_new_def TX_INTERVAL_MS_def)
  have z: "RADIOLIB_ERR_NONE = 0" "successfulTransmissions joined_mgr = 0"
    by (simp_all add: RADIOLIB_ERR_NONE_def joined_mgr_def LoRaWANManager_new_def)
  show ?thesis
    using sendCustomPayload_success [OF g, of env0 "replicate 300 7" 300 1 60001 True]
    by (simp add: z trace_emit trace_saveSession)
qed

section \<open>Position report encoding\<close>

lemma and_0xFF: "w AND 0xFF = take_bit 8 w" for w :: "32 word"
  by (simp add: take_bit_eq_mask mask_eq_exp_minus_1)

lemma low_byte_sint:
  "(ucast (w AND 0xFF) :: u8) = word_of_int (sint w)" for w :: "32 word"
  unfolding and_0xFF by (rule bit_word_eqI) (auto simp: bit_simps)

lemma sint_promote: "sint (scast a :: 32 word) = sint a" for a :: "16 word"
  by (simp add: sint_up_scast is_up)

lemma upt_4: "[0..<4] = [0, 1, 2, 3]"
  by (simp add: upt_conv_Cons)

lemma upt_2: "[0..<2] = [0, 1]"
  by (simp add: upt_conv_Cons)

lemma be_twos_complement_4:
  "be_twos_complement 4 v =
     [word_of_int (v div 2 ^ 24), word_of_int (v div 2 ^ 16), word_of_int (v div 2 ^ 8),
      word_of_int v]"
  by (simp add: be_twos_complement_def upt_4)

lemma be_twos_complement_2:
  "be_twos_complement 2 v = [word_of_int (v div 2 ^ 8), word_of_int v]"
  by (simp add: be_twos_complement_def upt_2)

lemma take_13:
  assumes "13 \<le> length b"
  shows "take 13 b = [b ! 0, b ! 1, b ! 2, b ! 3, b ! 4, b ! 5, b ! 6, b ! 7, b ! 8, b ! 9,
                      b ! 10, b ! 11, b ! 12]"
proof (rule nth_equalityI)
  show "length (take 13 b) = length [b ! 0, b ! 1, b ! 2, b ! 3, b ! 4, b ! 5, b ! 6, b ! 7,
                      b ! 8, b ! 9, b ! 10, b ! 11, b ! 12]"
    using assms by simp
next
  fix i assume "i < length (take 13 b)"
  then have "i < 13" by simp
  then have "i = 0 \<or> i = 1 \<or> i = 2 \<or> i = 3 \<or> i = 4 \<or> i = 5 \<or> i = 6 \<or> i = 7
    \<or> i = 8 \<or> i = 9 \<or> i = 10 \<or> i = 11 \<or> i = 12" by arith
  then show "take 13 b ! i = [b ! 0, b ! 1, b ! 2, b ! 3, b ! 4, b ! 5, b ! 6, b ! 7,
                      b ! 8, b ! 9, b ! 10, b ! 11, b ! 12] ! i"
    using assms by (elim disjE) simp_all
qed

lemma encodeGPSData_bytes:
  assumes "13 \<le> length buffer"
  shows "\<exists>b. encodeGPSData gps buffer = Some (13, b) \<and> length b = length buffer
    \<and> take 13 b = [MSG_TYPE_GPS_DATA] @ be_twos_complement 4 (sint (latitude gps))
         @ be_twos_complement 4 (sint (longitude gps))
         @ be_twos_complement 2 (sint (altitude gps)) @ [satellites gps, hdop gps]
    \<and> drop 13 b = drop 13 buffer"
proof -
  define b where "b = buffer
        [0 := MSG_TYPE_GPS_DATA,
         1 := ucast (signed_drop_bit 24 (latitude gps) AND 0xFF),
         2 := ucast (signed_drop_bit 16 (latitude gps) AND 0xFF),
         3 := ucast (signed_drop_bit 8 (latitude gps) AND 0xFF),
         4 := ucast (latitude gps AND 0xFF),
         5 := ucast (signed_drop_bit 24 (longitude gps) AND 0xFF),
         6 := ucast (signed_drop_bit 16 (longitude gps) AND 0xFF),
         7 := ucast (signed_drop_bit 8 (longitude gps) AND 0xFF),
         8 := ucast (longitude gps AND 0xFF),
         9 := ucast (signed_drop_bit 8 (scast (altitude gps) :: i32) AND 0xFF),
         10 := ucast ((scast (altitude gps) :: i32) AND 0xFF),
         11 := satellites gps,
         12 := hdop gps]"
  have enc: "encodeGPSData gps buffer = Some (13, b)"
    using assms unfolding encodeGPSData_def b_def by simp
  have b_alt: "b = buffer
        [0 := MSG_TYPE_GPS_DATA,
         1 := word_of_int (sint (latitude gps) div 2 ^ 24),
         2 := word_of_int (sint (latitude gps) div 2 ^ 16),
         3 := word_of_int (sint (latitude gps) div 2 ^ 8),
         4 := word_of_int (sint (latitude gps)),
         5 := word_of_int (sint (longitude gps) div 2 ^ 24),
         6 := word_of_int (sint (longitude gps) div 2 ^ 16),
         7 := word_of_int (sint (longitude gps) div 2 ^ 8),
         8 := word_of_int (sint (longitude gps)),
         9 := word_of_int (sint (altitude gps) div 2 ^ 8),
         10 := word_of_int (sint (altitude gps)),
         11 := satellites gps,
         12 := hdop gps]"
    unfolding b_def low_byte_sint sint_signed_drop_bit_eq drop_bit_eq_div sint_promote ..
  have len: "length b = length buffer" by (simp add: b_alt)
  from assms have ne: "buffer \<noteq> []" by auto
  have tk: "take 13 b = [MSG_TYPE_GPS_DATA] @ be_twos_complement 4 (sint (latitude gps))
         @ be_twos_complement 4 (sint (longitude gps))
         @ be_twos_complement 2 (sint (altitude gps)) @ [satellites gps, hdop gps]"
    using assms ne len
    by (simp add: take_13 be_twos_complement_4 be_twos_complement_2) (simp add: b_alt)
  have dr: "drop 13 b = drop 13 buffer" by (simp add: b_alt)
  from enc len tk dr show ?thesis by blast
qed

text \<open>
  C7. For every position record and every buffer of at least 13 bytes, \<open>encodeGPSData\<close>
  returns 13 and leaves a buffer of the same size whose first 13 bytes are the tag
  \<open>0x01\<close>, the latitude and the longitude each as four bytes of big-endian two's
  complement, the altitude as two such bytes, the satellite count and the hdop, in this
  order; the bytes from index 13 on are as before. For lat = -33448900, lon = -70669300,
  altitude = 520, satellites = 8, hdop = 12 the 13 bytes are
  \<open>01 FE 01 9C 3C FB C9 AC 0C 02 08 08 0C\<close>, bytes 1 to 4 being the big-endian two's
  complement of -33448900.
\<close>

theorem C7_encodeGPSData_layout:
  assumes "13 \<le> length buffer"
  shows "\<exists>b. encodeGPSData gps buffer = Some (13, b) \<and> length b = length buffer
    \<and> take 13 b = [0x01] @ be_twos_complement 4 (sint (latitude gps))
         @ be_twos_complement 4 (sint (longitude gps))
         @ be_twos_complement 2 (sint (altitude gps)) @ [satellites gps, hdop gps]
    \<and> drop 13 b = drop 13 buffer
    \<and> (gps = santiago_fix \<longrightarrow>
         take 13 b = [0x01, 0xFE, 0x01, 0x9C, 0x3C, 0xFB, 0xC9, 0xAC, 0x0C, 0x02, 0x08, 0x08, 0x0C]
         \<and> take 4 (drop 1 b) = be_twos_complement 4 (- 33448900))"
proof -
  from encodeGPSData_bytes [OF assms, of gps] obtain b where
    b: "encodeGPSData gps buffer = Some (13, b)" "length b = length buffer"
      "take 13 b = [MSG_TYPE_GPS_DATA] @ be_twos_complement 4 (sint (latitude gps))
         @ be_twos_complement 4 (sint (longitude gps))
         @ be_twos_complement 2 (sint (altitude gps)) @ [satellites gps, hdop gps]"
      "drop 13 b = drop 13 buffer"
    by blast
  have s: "take 13 b = [0x01, 0xFE, 0x01, 0x9C, 0x3C, 0xFB, 0xC9, 0xAC, 0x0C, 0x02, 0x08, 0x08, 0x0C]"
    if "gps = santiago_fix"
    using b(3) that
    by (simp add: santiago_fix_def MSG_TYPE_GPS_DATA_def be_twos_complement_4 be_twos_complement_2)
  have "take 4 (drop 1 (take 13 b)) = be_twos_complement 4 (- 33448900)" if "gps = santiago_fix"
    using s [OF that] by (simp add: be_twos_complement_4)
  then have t: "take 4 (drop 1 b) = be_twos_complement 4 (- 33448900)" if "gps = santiago_fix"
    using that by (simp add: drop_take)
  from b s t show ?thesis by (auto simp: MSG_TYPE_GPS_DATA_def)
qed

theorem C7_encodeGPSData_layout_witness:
  "13 \<le> length (replicate 32 (0 :: u8))
   \<and> (\<exists>b. encodeGPSData santiago_fix (replicate 32 0) = Some (13, b) \<and> length b = 32
        \<and> take 13 b = [0x01, 0xFE, 0x01, 0x9C, 0x3C, 0xFB, 0xC9, 0xAC, 0x0C, 0x02, 0x08, 0x08, 0x0C]
        \<and> drop 13 b = replicate 19 0)"
proof -
  have h: "13 \<le> length (replicate 32 (0 :: u8))" by simp
  from C7_encodeGPSData_layout [OF h, of santiago_fix] h show ?thesis by auto
qed

section \<open>Hexadecimal credentials\<close>

text \<open>
  C10 at the failing input. The string \<open>0a\<close> is accepted, since \<open>isxdigit\<close> admits lower
  case, but the digit expression turns \<open>a\<close> into 42 and the byte is \<open>0x2A\<close>, not
  \<open>0x0A\<close>; likewise \<open>1f\<close> gives \<open>0x3F\<close>. The upper-case strings give \<open>0x0A\<close> and \<open>0x1F\<close>.
\<close>

theorem C10_lowercase_digit_value:
  "hexStringToBytes ''0a'' [0] 1 = (True, [0x2A])
   \<and> hexStringToBytes ''1f'' [0] 1 = (True, [0x3F])
   \<and> hexStringToBytes ''0A'' [0] 1 = (True, [0x0A])
   \<and> hexStringToBytes ''1F'' [0] 1 = (True, [0x1F])"
  by (simp add: hexStringToBytes_def c_strlen_def char_at_def isxdigit_def hex_nibble_def)

section \<open>Geofence hysteresis\<close>

lemma zone_evaluate_ENTER:
  assumes "zone_evaluate R M inside d = (inside', Some ENTER)"
  shows "\<not> inside \<and> inside' \<and> d \<le> R - M"
  using assms by (auto simp: zone_evaluate_def split: if_splits)

lemma zone_evaluate_EXIT:
  assumes "zone_evaluate R M inside d = (inside', Some EXIT)"
  shows "inside \<and> \<not> inside' \<and> d > R + M"
  using assms by (auto simp: zone_evaluate_def split: if_splits)

lemma zone_evaluate_None:
  assumes "zone_evaluate R M inside d = (inside', None)"
  shows "inside' = inside"
  using assms by (auto simp: zone_evaluate_def split: if_splits)

lemma zone_evaluate_band:
  assumes "0 \<le> M" "R - M < d" "d \<le> R + M"
  shows "zone_evaluate R M inside d = (inside, None)"
  using assms by (auto simp: zone_evaluate_def classify_inside_def)

lemma evaluate_event_sound:
  assumes "evaluate M distance zs = (zs', Some (i, k))"
  shows "\<exists>z \<in> set zs. \<exists>r. zone_id z = i \<and> zone_radius z = Some r
           \<and> (k = ENTER \<longrightarrow> \<not> zone_inside z \<and> distance i \<le> r - M)
           \<and> (k = EXIT \<longrightarrow> zone_inside z \<and> distance i > r + M)"
  using assms
proof (induction zs arbitrary: zs')
  case Nil
  then show ?case by simp
next
  case (Cons z zs)
  show ?case
  proof (cases "zone_radius z")
    case None
    with Cons.prems obtain zs1 where "evaluate M distance zs = (zs1, Some (i, k))"
      by (auto split: prod.splits)
    from Cons.IH [OF this] show ?thesis by auto
  next
    case (Some r)
    obtain ins ev where ze: "zone_evaluate r M (zone_inside z) (distance (zone_id z)) = (ins, ev)"
      by (cases "zone_evaluate r M (zone_inside z) (distance (zone_id z))")
    show ?thesis
    proof (cases ev)
      case None
      with Cons.prems Some ze obtain zs1 where "evaluate M distance zs = (zs1, Some (i, k))"
        by (auto split: prod.splits)
      from Cons.IH [OF this] show ?thesis by auto
    next
      case (Some k')
      with Cons.prems \<open>zone_radius z = Some r\<close> ze have eq: "i = zone_id z" "k = k'" by auto
      have "(k = ENTER \<longrightarrow> \<not> zone_inside z \<and> distance i \<le> r - M)
           \<and> (k = EXIT \<longrightarrow> zone_inside z \<and> distance i > r + M)"
        using ze Some eq zone_evaluate_ENTER [of r M "zone_inside z" "distance i" ins]
          zone_evaluate_EXIT [of r M "zone_inside z" "distance i" ins] by auto
      with eq \<open>zone_radius z = Some r\<close> show ?thesis by auto
    qed
  qed
qed

lemma zone_run_sequence:
  assumes "0 \<le> M"
  shows "zone_run R M False [R + M + 1, R - 1, R + M - 1, R - M - 1] =
     (if M \<le> 1 then [None, Some ENTER, None, None] else [None, None, None, Some ENTER])"
  using assms by (auto simp: zone_evaluate_def classify_inside_def)

text \<open>
  C8 (on the engine as the spec describes it). For a zone of radius \<open>R\<close> and margin \<open>M\<close>,
  one evaluation commits ENTER only from outside and only when the distance is at most
  \<open>R - M\<close>, commits EXIT only from inside and only when the distance exceeds \<open>R + M\<close>, and
  otherwise retains the state, as it does for every distance in the band
  \<open>R - M < d \<le> R + M\<close>; an event returned by the scan over the zones is one of these.
  For the distance sequence \<open>R+M+1, R-1, R+M-1, R-M-1\<close> from outside it commits exactly
  one ENTER and no EXIT: at the fourth sample when \<open>M > 1\<close>, at the second when
  \<open>0 \<le> M \<le> 1\<close>, and nothing at the other samples.
\<close>

theorem C8_hysteresis:
  "(zone_evaluate R M inside d = (inside', Some ENTER) \<longrightarrow> \<not> inside \<and> inside' \<and> d \<le> R - M)
   \<and> (zone_evaluate R M inside d = (inside', Some EXIT) \<longrightarrow> inside \<and> \<not> inside' \<and> d > R + M)
   \<and> (zone_evaluate R M inside d = (inside', None) \<longrightarrow> inside' = inside)
   \<and> (0 \<le> M \<and> R - M < d \<and> d \<le> R + M \<longrightarrow> zone_evaluate R M inside d = (inside, None))
   \<and> (evaluate M distance zs = (zs', Some (i, k)) \<longrightarrow>
        (\<exists>z \<in> set zs. \<exists>r. zone_id z = i \<and> zone_radius z = Some r
           \<and> (k = ENTER \<longrightarrow> \<not> zone_inside z \<and> distance i \<le> r - M)
           \<and> (k = EXIT \<longrightarrow> zone_inside z \<and> distance i > r + M)))
   \<and> (0 \<le> M \<longrightarrow>
        zone_run R M False [R + M + 1, R - 1, R + M - 1, R - M - 1] =
          (if M \<le> 1 then [None, Some ENTER, None, None] else [None, None, None, Some ENTER]))"
  using zone_evaluate_ENTER [of R M inside d inside'] zone_evaluate_EXIT [of R M inside d inside']
    zone_evaluate_None [of R M inside d inside'] zone_evaluate_band [of M R d inside]
    evaluate_event_sound [of M distance zs zs' i k] zone_run_sequence [of M R]
  by blast

theorem C8_hysteresis_witness:
  "zone_evaluate 100 2 False 97 = (True, Some ENTER) \<and> (97 :: real) \<le> 100 - 2
   \<and> zone_evaluate 100 2 True 103 = (False, Some EXIT) \<and> (103 :: real) > 100 + 2
   \<and> (0 :: real) \<le> 2 \<and> (100 - 2 :: real) < 101 \<and> (101 :: real) \<le> 100 + 2
   \<and> zone_evaluate 100 2 True 101 = (True, None)
   \<and> evaluate 2 (\<lambda>i. 97) [\<lparr>zone_id = 0, zone_radius = Some 100, zone_inside = False\<rparr>] =
       ([\<lparr>zone_id = 0, zone_radius = Some 100, zone_inside = True\<rparr>], Some (0, ENTER))
   \<and> zone_run 100 2 False [100 + 2 + 1, 100 - 1, 100 + 2 - 1, 100 - 2 - 1] =
       [None, None, None, Some ENTER]
   \<and> zone_run 100 1 False [100 + 1 + 1, 100 - 1, 100 + 1 - 1, 100 - 1 - 1] =
       [None, Some ENTER, None, None]"
proof -
  have e: "zone_evaluate 100 2 False 97 = (True, Some ENTER)"
    "zone_evaluate 100 2 True 103 = (False, Some EXIT)"
    "zone_evaluate 100 2 True 101 = (True, None)"
    by (simp_all add: zone_evaluate_def classify_inside_def)
  have s: "evaluate 2 (\<lambda>i. 97) [\<lparr>zone_id = 0, zone_radius = Some 100, zone_inside = False\<rparr>] =
       ([\<lparr>zone_id = 0, zone_radius = Some 100, zone_inside = True\<rparr>], Some (0, ENTER))"
    by (simp add: zone_evaluate_def classify_inside_def)
  have b: "(0 :: real) \<le> 2 \<and> (100 - 2 :: real) < 101 \<and> (101 :: real) \<le> 100 + 2" by simp
  have p: "(0 :: real) \<le> 1" by simp
  note 1 = C8_hysteresis [where R = 100 and M = 2 and inside = False and d = 97
      and inside' = True, THEN conjunct1, rule_format, OF e(1)]
  note 2 = C8_hysteresis [where R = 100 and M = 2 and inside = True and d = 103
      and inside' = False, THEN conjunct2, THEN conjunct1, rule_format, OF e(2)]
  note 3 = C8_hysteresis [where R = 100 and M = 2 and inside = True and d = 101
      and inside' = True, THEN conjunct2, THEN conjunct2, THEN conjunct1, rule_format, OF e(3)]
  note 4 = C8_hysteresis [where R = 100 and M = 2 and inside = True and d = 101,
      THEN conjunct2, THEN conjunct2, THEN conjunct2, THEN conjunct1, rule_format, OF b]
  note 5 = C8_hysteresis [where M = 2 and distance = "\<lambda>i. 97"
      and zs = "[\<lparr>zone_id = 0, zone_radius = Some 100, zone_inside = False\<rparr>]"
      and zs' = "[\<lparr>zone_id = 0, zone_radius = Some 100, zone_inside = True\<rparr>]"
      and i = 0 and k = ENTER,
      THEN conjunct2, THEN conjunct2, THEN conjunct2, THEN conjunct2, THEN conjunct1,
      rule_format, OF s]
  note 6 = C8_hysteresis [where R = 100 and M = 2,
      THEN conjunct2, THEN conjunct2, THEN conjunct2, THEN conjunct2, THEN conjunct2,
      rule_format]
  note 7 = C8_hysteresis [where R = 100 and M = 1,
      THEN conjunct2, THEN conjunct2, THEN conjunct2, THEN conjunct2, THEN conjunct2,
      rule_format, OF p]
  from 1 2 3 4 5 6 7 e s show ?thesis by simp
qed

text \<open>
  The claim as stated fails on its own sequence: with \<open>R = 100\<close> and \<open>M = 2\<close> the second
  distance 99 lies inside the band, so no ENTER is committed there, and the fourth
  distance 97 commits an ENTER, not an EXIT.
\<close>

theorem C8_counterexample:
  "zone_run 100 2 False [100 + 2 + 1, 100 - 1, 100 + 2 - 1, 100 - 2 - 1] =
     [None, None, None, Some ENTER]"
  by (simp add: zone_evaluate_def classify_inside_def)

end
